theory Spec2Isabelle
  imports Main
begin

section \<open>Python values and the builtins the engine calls\<close>

text \<open>
  The runtime engine of \<^verbatim>\<open>main.py\<close> passes answers and operands around as
  \<^verbatim>\<open>Any\<close>. The values that reach it are the scalars of a request body and of a
  database row: \<^verbatim>\<open>None\<close>, \<^verbatim>\<open>bool\<close>, \<^verbatim>\<open>int\<close> (unbounded), \<^verbatim>\<open>float\<close> and
  \<^verbatim>\<open>str\<close>. Floating point numbers are kept abstract: \<open>'f\<close> is the carrier of
  Python's \<^verbatim>\<open>float\<close>, and the operations of the interpreter and of the database
  engine on it are the fields of a record that every function of the model takes
  as its first argument. Nothing is assumed about them, so every theorem holds for
  any floating point arithmetic.
\<close>

datatype 'f pyval = PNone | PBool bool | PInt int | PFloat 'f | PStr string

datatype pyexc = ValueError | TypeError | OverflowError | AttributeError | HTTPException nat

record 'f pyrt =
  float_of_int :: "int \<Rightarrow> 'f"
  float_of_str :: "string \<Rightarrow> 'f option"
  float_eq :: "'f \<Rightarrow> 'f \<Rightarrow> bool"
  float_truth :: "'f \<Rightarrow> bool"
  float_str :: "'f \<Rightarrow> string"
  float_isnan :: "'f \<Rightarrow> bool"
  numeric_affinity :: "'f pyval \<Rightarrow> 'f pyval"

text \<open>
  \<open>float_of_int\<close> is \<^verbatim>\<open>float(n)\<close> for an integer in the range of a double,
  \<open>float_of_str\<close> is \<^verbatim>\<open>float(s)\<close> with \<open>None\<close> for the \<^verbatim>\<open>ValueError\<close> of a string
  that is not a number, \<open>float_eq\<close> is \<^verbatim>\<open>==\<close> on floats, \<open>float_truth\<close> is
  \<^verbatim>\<open>bool(x)\<close>, \<open>float_str\<close> is \<^verbatim>\<open>str(x)\<close> and \<open>float_isnan\<close> tells a NaN.
  \<open>numeric_affinity\<close> is what SQLite makes of a real or a text that is stored in
  a column of numeric affinity (a number where the value reads as one).

  \<^verbatim>\<open>float(n)\<close> raises \<^verbatim>\<open>OverflowError\<close> for an integer that rounds beyond the largest
  double, that is from \<open>2^1024 - 2^970\<close> on. \<^verbatim>\<open>str(n)\<close> raises \<^verbatim>\<open>ValueError\<close> for an
  integer of more than 4300 decimal digits (the default limit of CPython 3.11 and
  later).
\<close>

definition float_overflow :: int where
  "float_overflow = 2 ^ 1024 - 2 ^ 970"

definition max_str_digits :: nat where
  "max_str_digits = 4300"

fun str_of_nat :: "nat \<Rightarrow> string" where
  "str_of_nat n =
     (if n < 10 then [char_of (48 + n)]
      else str_of_nat (n div 10) @ [char_of (48 + n mod 10)])"

declare str_of_nat.simps [simp del]

definition str_of_int :: "int \<Rightarrow> string" where
  "str_of_int n = (if n < 0 then CHR ''-'' # str_of_nat (nat (- n)) else str_of_nat (nat n))"

fun py_bool :: "'f pyrt \<Rightarrow> 'f pyval \<Rightarrow> bool" where
  "py_bool rt PNone = False"
| "py_bool rt (PBool b) = b"
| "py_bool rt (PInt n) = (n \<noteq> 0)"
| "py_bool rt (PFloat x) = float_truth rt x"
| "py_bool rt (PStr s) = (s \<noteq> [])"

fun py_float :: "'f pyrt \<Rightarrow> 'f pyval \<Rightarrow> pyexc + 'f" where
  "py_float rt PNone = Inl TypeError"
| "py_float rt (PBool b) = Inr (float_of_int rt (if b then 1 else 0))"
| "py_float rt (PInt n) =
     (if float_overflow \<le> \<bar>n\<bar> then Inl OverflowError else Inr (float_of_int rt n))"
| "py_float rt (PFloat x) = Inr x"
| "py_float rt (PStr s) =
     (case float_of_str rt s of None \<Rightarrow> Inl ValueError | Some x \<Rightarrow> Inr x)"

fun py_str :: "'f pyrt \<Rightarrow> 'f pyval \<Rightarrow> pyexc + string" where
  "py_str rt PNone = Inr ''None''"
| "py_str rt (PBool b) = Inr (if b then ''True'' else ''False'')"
| "py_str rt (PInt n) =
     (if 10 ^ max_str_digits \<le> \<bar>n\<bar> then Inl ValueError else Inr (str_of_int n))"
| "py_str rt (PFloat x) = Inr (float_str rt x)"
| "py_str rt (PStr s) = Inr s"

text \<open>\<^verbatim>\<open>isinstance(v, bool)\<close> and \<^verbatim>\<open>isinstance(v, (int, float))\<close>; a \<^verbatim>\<open>bool\<close> is an \<^verbatim>\<open>int\<close>.\<close>

fun is_bool :: "'f pyval \<Rightarrow> bool" where
  "is_bool (PBool b) = True"
| "is_bool v = False"

fun is_int_or_float :: "'f pyval \<Rightarrow> bool" where
  "is_int_or_float (PBool b) = True"
| "is_int_or_float (PInt n) = True"
| "is_int_or_float (PFloat x) = True"
| "is_int_or_float v = False"

text \<open>\<^verbatim>\<open>v == ""\<close>: only the empty string equals it.\<close>

fun is_empty_str :: "'f pyval \<Rightarrow> bool" where
  "is_empty_str (PStr s) = (s = [])"
| "is_empty_str v = False"

section \<open>The condition evaluator\<close>

text \<open>
  \<^verbatim>\<open>_check_condition\<close> wraps its body in \<^verbatim>\<open>try ... except (ValueError, TypeError):
  return False\<close>. \<open>except_value_type\<close> is that handler: the two exceptions become
  \<^verbatim>\<open>False\<close>, any other one leaves the function.
\<close>

fun except_value_type :: "pyexc + bool \<Rightarrow> pyexc + bool" where
  "except_value_type (Inl ValueError) = Inr False"
| "except_value_type (Inl TypeError) = Inr False"
| "except_value_type r = r"

text \<open>The three branches of \<^verbatim>\<open>op_code == 'eq'\<close>; Python evaluates the left operand first.\<close>

definition eq_branch :: "'f pyrt \<Rightarrow> 'f pyval \<Rightarrow> 'f pyval \<Rightarrow> pyexc + bool" where
  "eq_branch rt actual_value expected_value =
     (if is_bool expected_value then
        Inr (py_bool rt actual_value = py_bool rt expected_value)
      else if is_int_or_float expected_value then
        (case py_float rt actual_value of
           Inl e \<Rightarrow> Inl e
         | Inr x \<Rightarrow>
             (case py_float rt expected_value of
                Inl e \<Rightarrow> Inl e
              | Inr y \<Rightarrow> Inr (float_eq rt x y)))
      else
        (case py_str rt actual_value of
           Inl e \<Rightarrow> Inl e
         | Inr s \<Rightarrow>
             (case py_str rt expected_value of
                Inl e \<Rightarrow> Inl e
              | Inr t \<Rightarrow> Inr (s = t))))"

function check_condition :: "'f pyrt \<Rightarrow> 'f pyval \<Rightarrow> string \<Rightarrow> 'f pyval \<Rightarrow> pyexc + bool" where
  "check_condition rt actual_value op_code expected_value =
     except_value_type
       (if op_code = ''is_true'' then Inr (py_bool rt actual_value = True)
        else if op_code = ''is_false'' then Inr (py_bool rt actual_value = False)
        else if op_code = ''eq'' then eq_branch rt actual_value expected_value
        else if op_code = ''ne'' then
          (case check_condition rt actual_value ''eq'' expected_value of
             Inl e \<Rightarrow> Inl e
           | Inr b \<Rightarrow> Inr (\<not> b))
        else if op_code = ''is_empty'' then
          Inr (actual_value = PNone \<or> is_empty_str actual_value)
        else if op_code = ''not_empty'' then
          Inr (actual_value \<noteq> PNone \<and> \<not> is_empty_str actual_value)
        else Inr False)"
  by pat_completeness auto
termination
  by (relation "measure (\<lambda>(rt, a, c, e). if c = ''ne'' then 1 else 0)") auto

declare check_condition.simps [simp del]

section \<open>The store\<close>

text \<open>
  The engine reads and writes an SQLite database through SQL text. Each table is
  a list of rows, in the order in which SQLite yields them; a row is a record of
  the columns that the runtime functions read or write. A nullable column that
  holds a value of any type holds a \<open>pyval\<close>, with \<open>PNone\<close> for \<^verbatim>\<open>NULL\<close>; what comes
  out of a row is \<^verbatim>\<open>None\<close>, an \<^verbatim>\<open>int\<close> of 64 bits, a \<^verbatim>\<open>float\<close> or a \<^verbatim>\<open>str\<close>, never a
  \<^verbatim>\<open>bool\<close>. \<^verbatim>\<open>fetch_one\<close> is \<open>find\<close>, \<^verbatim>\<open>WHERE\<close> is \<open>filter\<close>, a \<^verbatim>\<open>JOIN\<close> is a list
  comprehension over both tables.

  Every table has \<^verbatim>\<open>id INTEGER PRIMARY KEY\<close>, the row id by which SQLite keeps the
  table and, after the key, its indexes: rows come out by ascending id, and rows
  with equal \<^verbatim>\<open>ORDER BY\<close> keys stay in that order, which \<open>sort_key\<close> does on a
  table listed by ascending id. The theorem on the order of the transitions takes
  that listing as its hypothesis. \<^verbatim>\<open>CURRENT_TIMESTAMP\<close> is the argument \<open>now\<close>.
  Constraint violations of the database (foreign keys, an integer beyond 64 bits
  at parameter binding) are outside the model.
\<close>

record forms_row =
  forms_id :: int
  forms_code :: string

record form_steps_row =
  fs_id :: int
  fs_code :: string
  fs_is_terminal :: bool

record step_fields_row =
  sf_id :: int
  sf_step_id :: int
  sf_code :: string
  sf_data_type_id :: int

text \<open>The dictionary tables \<^verbatim>\<open>field_data_types\<close>, \<^verbatim>\<open>compare_ops\<close> and \<^verbatim>\<open>instance_statuses\<close>.\<close>

record lookup_row =
  lk_id :: int
  lk_code :: string

record condition_groups_row =
  cg_id :: int
  cg_logic_op :: string

record 'f conditions_row =
  c_group_id :: int
  c_field_id :: int
  c_op_id :: int
  c_value_text :: "'f pyval"
  c_value_num :: "'f pyval"
  c_value_bool :: "'f pyval"
  c_value_date :: "'f pyval"
  c_option_code :: "'f pyval"
  c_position :: int

record step_transitions_row =
  st_id :: int
  st_source_step_id :: int
  st_target_step_id :: int
  st_condition_group_id :: int
  st_priority :: int

record form_instances_row =
  fi_id :: int
  fi_form_id :: int
  fi_status_id :: int
  fi_current_step_id :: "int option"
  fi_updated_at :: nat

record instance_steps_row =
  is_instance_id :: int
  is_step_id :: int
  is_status_code :: string
  is_entered_at :: nat
  is_left_at :: "nat option"

record 'f instance_answers_row =
  ia_instance_id :: int
  ia_field_id :: int
  ia_value_text :: "'f pyval"
  ia_value_num :: "'f pyval"
  ia_value_bool :: "'f pyval"
  ia_value_date :: "'f pyval"
  ia_updated_at :: nat

text \<open>An entry of the process-local dictionary \<^verbatim>\<open>form_sessions\<close>.\<close>

record session_state =
  ss_form_id :: int
  ss_form_code :: string
  ss_current_step_id :: "int option"
  ss_current_step_code :: "string option"
  ss_completed_steps :: "string list"
  ss_available_steps :: "string list"

record 'f state =
  forms :: "forms_row list"
  form_steps :: "form_steps_row list"
  step_fields :: "step_fields_row list"
  field_data_types :: "lookup_row list"
  compare_ops :: "lookup_row list"
  instance_statuses :: "lookup_row list"
  condition_groups :: "condition_groups_row list"
  conditions :: "'f conditions_row list"
  step_transitions :: "step_transitions_row list"
  form_instances :: "form_instances_row list"
  instance_steps :: "instance_steps_row list"
  instance_answers :: "'f instance_answers_row list"
  form_sessions :: "int \<rightharpoonup> session_state"

text \<open>\<^verbatim>\<open>next((v for v in (...) if v is not None), None)\<close>\<close>

fun first_not_none :: "'f pyval list \<Rightarrow> 'f pyval" where
  "first_not_none [] = PNone"
| "first_not_none (v # vs) = (if v \<noteq> PNone then v else first_not_none vs)"

text \<open>\<^verbatim>\<open>if step_id:\<close> on an \<^verbatim>\<open>Optional[int]\<close>: \<^verbatim>\<open>None\<close> and \<^verbatim>\<open>0\<close> are false.\<close>

fun truthy_id :: "int option \<Rightarrow> bool" where
  "truthy_id None = False"
| "truthy_id (Some n) = (n \<noteq> 0)"

section \<open>Group evaluation and transition resolution\<close>

definition get_all_answers :: "'f state \<Rightarrow> int \<Rightarrow> (int \<rightharpoonup> 'f pyval)" where
  "get_all_answers st instance_id =
     fold (\<lambda>row answers_map.
             answers_map(ia_field_id row \<mapsto>
               first_not_none [ia_value_bool row, ia_value_text row,
                               ia_value_num row, ia_value_date row]))
       (filter (\<lambda>row. ia_instance_id row = instance_id) (instance_answers st))
       Map.empty"

text \<open>The query of \<^verbatim>\<open>_evaluate_group\<close>: the conditions of a group joined with their operator codes.\<close>

definition conditions_rows :: "'f state \<Rightarrow> int \<Rightarrow> ('f conditions_row \<times> string) list" where
  "conditions_rows st group_id =
     sort_key (\<lambda>(c, op_code). c_position c)
       [(c, lk_code op). c \<leftarrow> conditions st, op \<leftarrow> compare_ops st,
          c_op_id c = lk_id op \<and> c_group_id c = group_id]"

fun check_rows ::
  "'f pyrt \<Rightarrow> (int \<rightharpoonup> 'f pyval) \<Rightarrow> ('f conditions_row \<times> string) list \<Rightarrow> pyexc + bool list"
where
  "check_rows rt all_answers [] = Inr []"
| "check_rows rt all_answers ((cond, op_code) # rows) =
     (let actual_value = (case all_answers (c_field_id cond) of None \<Rightarrow> PNone | Some v \<Rightarrow> v);
          expected_value = first_not_none [c_value_bool cond, c_value_text cond,
                             c_value_num cond, c_value_date cond, c_option_code cond]
      in case check_condition rt actual_value op_code expected_value of
           Inl e \<Rightarrow> Inl e
         | Inr b \<Rightarrow>
             (case check_rows rt all_answers rows of
                Inl e \<Rightarrow> Inl e
              | Inr results \<Rightarrow> Inr (b # results)))"

definition evaluate_group :: "'f pyrt \<Rightarrow> 'f state \<Rightarrow> int \<Rightarrow> (int \<rightharpoonup> 'f pyval) \<Rightarrow> pyexc + bool" where
  "evaluate_group rt st group_id all_answers =
     (case find (\<lambda>g. cg_id g = group_id) (condition_groups st) of
        None \<Rightarrow> Inr False
      | Some group_row \<Rightarrow>
          (if conditions_rows st group_id = [] then Inr True
           else
             (case check_rows rt all_answers (conditions_rows st group_id) of
                Inl e \<Rightarrow> Inl e
              | Inr results \<Rightarrow>
                  Inr (if cg_logic_op group_row = ''AND'' then list_all (\<lambda>b. b) results
                       else list_ex (\<lambda>b. b) results))))"

text \<open>The query of \<^verbatim>\<open>_get_valid_forward_steps\<close>: \<^verbatim>\<open>WHERE source_step_id = :id ORDER BY priority\<close>.\<close>

definition transitions_rows :: "'f state \<Rightarrow> int \<Rightarrow> step_transitions_row list" where
  "transitions_rows st source_step_id =
     sort_key st_priority
       (filter (\<lambda>t. st_source_step_id t = source_step_id) (step_transitions st))"

fun allowed_targets ::
  "'f pyrt \<Rightarrow> 'f state \<Rightarrow> (int \<rightharpoonup> 'f pyval) \<Rightarrow> step_transitions_row list \<Rightarrow> pyexc + int list"
where
  "allowed_targets rt st all_answers [] = Inr []"
| "allowed_targets rt st all_answers (tr # rest) =
     (case evaluate_group rt st (st_condition_group_id tr) all_answers of
        Inl e \<Rightarrow> Inl e
      | Inr ok \<Rightarrow>
          (case allowed_targets rt st all_answers rest of
             Inl e \<Rightarrow> Inl e
           | Inr allowed \<Rightarrow> Inr (if ok then st_target_step_id tr # allowed else allowed)))"

definition get_valid_forward_steps :: "'f pyrt \<Rightarrow> 'f state \<Rightarrow> int \<Rightarrow> int \<Rightarrow> pyexc + int list" where
  "get_valid_forward_steps rt st instance_id source_step_id =
     (if transitions_rows st source_step_id = [] then Inr []
      else allowed_targets rt st (get_all_answers st instance_id)
             (transitions_rows st source_step_id))"

text \<open>
  \<^verbatim>\<open>_determine_next_step\<close> reads \<^verbatim>\<open>current_step.is_terminal\<close> of the row that
  \<^verbatim>\<open>fetch_one\<close> returned: for a step that does not exist the row is \<^verbatim>\<open>None\<close> and the
  attribute access raises.
\<close>

definition determine_next_step :: "'f pyrt \<Rightarrow> 'f state \<Rightarrow> int \<Rightarrow> int \<Rightarrow> pyexc + int option" where
  "determine_next_step rt st instance_id current_step_id =
     (case find (\<lambda>s. fs_id s = current_step_id) (form_steps st) of
        None \<Rightarrow> Inl AttributeError
      | Some current_step \<Rightarrow>
          (if fs_is_terminal current_step then Inr None
           else
             (case get_valid_forward_steps rt st instance_id current_step_id of
                Inl e \<Rightarrow> Inl e
              | Inr valid_steps \<Rightarrow>
                  Inr (case valid_steps of [] \<Rightarrow> None | x # xs \<Rightarrow> Some x))))"

definition get_instance_status_id :: "'f state \<Rightarrow> string \<Rightarrow> pyexc + int" where
  "get_instance_status_id st code =
     (case find (\<lambda>r. lk_code r = code) (instance_statuses st) of
        None \<Rightarrow> Inl ValueError
      | Some row \<Rightarrow> Inr (lk_id row))"

section \<open>Navigation\<close>

text \<open>\<^verbatim>\<open>list(dict.fromkeys(xs))\<close>: the elements of \<open>xs\<close> in the order of their first occurrence.\<close>

definition dict_fromkeys :: "'a list \<Rightarrow> 'a list" where
  "dict_fromkeys xs = fold (\<lambda>x seen. if x \<in> set seen then seen else seen @ [x]) xs []"

definition get_step_codes :: "'f state \<Rightarrow> int list \<Rightarrow> (int \<rightharpoonup> string)" where
  "get_step_codes st step_ids =
     (if step_ids = [] then Map.empty
      else fold (\<lambda>row codes. codes(fs_id row \<mapsto> fs_code row))
             (filter (\<lambda>row. fs_id row \<in> set step_ids) (form_steps st)) Map.empty)"

record navigation =
  nav_current_step_code :: "string option"
  nav_completed_steps :: "string list"
  nav_available_steps :: "string list"

definition completed_rows :: "'f state \<Rightarrow> int \<Rightarrow> (instance_steps_row \<times> form_steps_row) list" where
  "completed_rows st instance_id =
     sort_key (\<lambda>(ist, fs). is_entered_at ist)
       [(ist, fs). ist \<leftarrow> instance_steps st, fs \<leftarrow> form_steps st,
          is_step_id ist = fs_id fs \<and> is_instance_id ist = instance_id
            \<and> is_status_code ist = ''completed'']"

definition get_navigation_summary ::
  "'f pyrt \<Rightarrow> 'f state \<Rightarrow> int \<Rightarrow> int option \<Rightarrow> pyexc + navigation"
where
  "get_navigation_summary rt st instance_id current_step_id =
     (let completed_codes = map (\<lambda>(ist, fs). fs_code fs) (completed_rows st instance_id);
          available_codes = dict_fromkeys completed_codes
      in if truthy_id current_step_id then
           (let current_row = find (\<lambda>s. fs_id s = the current_step_id) (form_steps st);
                current_code = map_option fs_code current_row;
                available_codes1 =
                  (case current_code of
                     None \<Rightarrow> available_codes
                   | Some code \<Rightarrow>
                       if code \<in> set available_codes then available_codes
                       else available_codes @ [code])
            in case get_valid_forward_steps rt st instance_id (the current_step_id) of
                 Inl e \<Rightarrow> Inl e
               | Inr forward_ids \<Rightarrow>
                   Inr \<lparr>nav_current_step_code = current_code,
                        nav_completed_steps = completed_codes,
                        nav_available_steps =
                          (if forward_ids = [] then available_codes1
                           else fold (\<lambda>step_id codes.
                                  case get_step_codes st forward_ids step_id of
                                    None \<Rightarrow> codes
                                  | Some code \<Rightarrow>
                                      if code \<noteq> [] \<and> code \<notin> set codes then codes @ [code]
                                      else codes)
                                  forward_ids available_codes1)\<rparr>)
         else Inr \<lparr>nav_current_step_code = None,
                   nav_completed_steps = completed_codes,
                   nav_available_steps = available_codes\<rparr>)"

text \<open>\<^verbatim>\<open>_sync_session_state\<close> returns the new entry and stores it in \<^verbatim>\<open>form_sessions\<close>.\<close>

definition sync_session_state ::
  "'f pyrt \<Rightarrow> 'f state \<Rightarrow> int \<Rightarrow> pyexc + (session_state \<times> 'f state)"
where
  "sync_session_state rt st instance_id =
     (case find (\<lambda>i. fi_id i = instance_id) (form_instances st) of
        None \<Rightarrow> Inl (HTTPException 404)
      | Some session_row \<Rightarrow>
          (case find (\<lambda>f. forms_id f = fi_form_id session_row) (forms st) of
             None \<Rightarrow> Inl (HTTPException 404)
           | Some form_row \<Rightarrow>
               (case get_navigation_summary rt st instance_id (fi_current_step_id session_row) of
                  Inl e \<Rightarrow> Inl e
                | Inr navigation \<Rightarrow>
                    (let entry = \<lparr>ss_form_id = fi_form_id session_row,
                                  ss_form_code = forms_code form_row,
                                  ss_current_step_id = fi_current_step_id session_row,
                                  ss_current_step_code = nav_current_step_code navigation,
                                  ss_completed_steps = nav_completed_steps navigation,
                                  ss_available_steps = nav_available_steps navigation\<rparr>
                     in Inr (entry,
                             st\<lparr>form_sessions := (form_sessions st)(instance_id \<mapsto> entry)\<rparr>)))))"

text \<open>The ids of the steps that the instance has completed, as \<^verbatim>\<open>_validate_navigation\<close> reads them.\<close>

definition completed_step_ids :: "'f state \<Rightarrow> int \<Rightarrow> int set" where
  "completed_step_ids st instance_id =
     set (map is_step_id
            (filter (\<lambda>r. is_instance_id r = instance_id \<and> is_status_code r = ''completed'')
               (instance_steps st)))"

definition validate_navigation ::
  "'f pyrt \<Rightarrow> 'f state \<Rightarrow> int \<Rightarrow> int option \<Rightarrow> int \<Rightarrow> pyexc + unit"
where
  "validate_navigation rt st instance_id current_step_id target_step_id =
     (let allowed_ids = completed_step_ids st instance_id
      in if truthy_id current_step_id then
           (case get_valid_forward_steps rt st instance_id (the current_step_id) of
              Inl e \<Rightarrow> Inl e
            | Inr forward_ids \<Rightarrow>
                if target_step_id \<notin> insert (the current_step_id) allowed_ids \<union> set forward_ids
                then Inl (HTTPException 403) else Inr ())
         else if target_step_id \<notin> allowed_ids then Inl (HTTPException 403) else Inr ())"

section \<open>The answer store\<close>

text \<open>One element of \<^verbatim>\<open>SubmitStepRequest.answers\<close>.\<close>

record 'f answer =
  ans_field_code :: string
  ans_value :: "'f pyval"

text \<open>
  The four values that \<^verbatim>\<open>_save_answers\<close> binds to the \<^verbatim>\<open>INSERT\<close>, chosen by the data
  type of the field. \<^verbatim>\<open>float(raw_value)\<close> and \<^verbatim>\<open>str(raw_value)\<close> are not guarded: their
  exception leaves \<^verbatim>\<open>_save_answers\<close>.
\<close>

record 'f bound_values =
  value_text :: "'f pyval"
  value_num :: "'f pyval"
  value_bool :: "'f pyval"
  value_date :: "'f pyval"

definition no_values :: "'f bound_values" where
  "no_values = \<lparr>value_text = PNone, value_num = PNone, value_bool = PNone, value_date = PNone\<rparr>"

definition coerce_value :: "'f pyrt \<Rightarrow> string \<Rightarrow> 'f pyval \<Rightarrow> pyexc + 'f bound_values" where
  "coerce_value rt data_type raw_value =
     (if data_type = ''boolean'' then
        Inr (no_values\<lparr>value_bool :=
               (if raw_value \<noteq> PNone then PBool (py_bool rt raw_value) else PNone)\<rparr>)
      else if data_type \<in> {''integer'', ''decimal''} then
        (if raw_value \<noteq> PNone then
           (case py_float rt raw_value of
              Inl e \<Rightarrow> Inl e
            | Inr x \<Rightarrow> Inr (no_values\<lparr>value_num := PFloat x\<rparr>))
         else Inr no_values)
      else if data_type \<in> {''date'', ''datetime''} then
        Inr (no_values\<lparr>value_date := raw_value\<rparr>)
      else
        (if raw_value \<noteq> PNone then
           (case py_str rt raw_value of
              Inl e \<Rightarrow> Inl e
            | Inr s \<Rightarrow> Inr (no_values\<lparr>value_text := PStr s\<rparr>))
         else Inr no_values))"

text \<open>
  What the store keeps of a bound value. The driver binds a \<^verbatim>\<open>bool\<close> as the integer
  1 or 0 and a NaN as \<^verbatim>\<open>NULL\<close>. The columns \<^verbatim>\<open>value_text\<close>, \<^verbatim>\<open>value_num\<close> and
  \<^verbatim>\<open>value_bool\<close> then keep what \<^verbatim>\<open>_save_answers\<close> binds to them (a text, a real, an
  integer); \<^verbatim>\<open>value_date\<close> is declared \<^verbatim>\<open>DATE\<close>, a column of numeric affinity, and
  receives the raw value of the request, of which a real or a text goes through
  \<open>numeric_affinity\<close>.
\<close>

fun sqlite_bind :: "'f pyrt \<Rightarrow> 'f pyval \<Rightarrow> 'f pyval" where
  "sqlite_bind rt (PBool b) = PInt (if b then 1 else 0)"
| "sqlite_bind rt (PFloat x) = (if float_isnan rt x then PNone else PFloat x)"
| "sqlite_bind rt v = v"

fun date_affinity :: "'f pyrt \<Rightarrow> 'f pyval \<Rightarrow> 'f pyval" where
  "date_affinity rt (PFloat x) = numeric_affinity rt (PFloat x)"
| "date_affinity rt (PStr s) = numeric_affinity rt (PStr s)"
| "date_affinity rt v = v"

definition stored_values :: "'f pyrt \<Rightarrow> 'f bound_values \<Rightarrow> 'f bound_values" where
  "stored_values rt v =
     \<lparr>value_text = sqlite_bind rt (value_text v),
      value_num = sqlite_bind rt (value_num v),
      value_bool = sqlite_bind rt (value_bool v),
      value_date = date_affinity rt (sqlite_bind rt (value_date v))\<rparr>"

text \<open>\<^verbatim>\<open>INSERT ... ON CONFLICT(instance_id, field_id) DO UPDATE SET ...\<close>\<close>

definition upsert_answer ::
  "'f pyrt \<Rightarrow> nat \<Rightarrow> int \<Rightarrow> int \<Rightarrow> 'f bound_values \<Rightarrow> 'f state \<Rightarrow> 'f state"
where
  "upsert_answer rt now instance_id field_id v st =
     (let w = stored_values rt v
      in if list_ex (\<lambda>r. ia_instance_id r = instance_id \<and> ia_field_id r = field_id)
              (instance_answers st)
         then st\<lparr>instance_answers :=
                map (\<lambda>r. if ia_instance_id r = instance_id \<and> ia_field_id r = field_id
                          then r\<lparr>ia_value_text := value_text w, ia_value_num := value_num w,
                                 ia_value_bool := value_bool w, ia_value_date := value_date w,
                                 ia_updated_at := now\<rparr>
                          else r)
                  (instance_answers st)\<rparr>
         else st\<lparr>instance_answers :=
                instance_answers st @
                  [\<lparr>ia_instance_id = instance_id, ia_field_id = field_id,
                    ia_value_text = value_text w, ia_value_num = value_num w,
                    ia_value_bool = value_bool w, ia_value_date = value_date w,
                    ia_updated_at = now\<rparr>]\<rparr>)"

text \<open>\<^verbatim>\<open>field_map = {row.code: (row.id, row.data_type) for row in fields_info}\<close>\<close>

definition field_map :: "'f state \<Rightarrow> int \<Rightarrow> (string \<rightharpoonup> int \<times> string)" where
  "field_map st step_id =
     fold (\<lambda>(f, dt) m. m(sf_code f \<mapsto> (sf_id f, lk_code dt)))
       [(f, dt). f \<leftarrow> step_fields st, dt \<leftarrow> field_data_types st,
          sf_data_type_id f = lk_id dt \<and> sf_step_id f = step_id]
       Map.empty"

text \<open>The loop over the answers; \<^verbatim>\<open>continue\<close> on a code that is not in \<^verbatim>\<open>field_map\<close>.\<close>

fun save_loop ::
  "'f pyrt \<Rightarrow> nat \<Rightarrow> (string \<rightharpoonup> int \<times> string) \<Rightarrow> int \<Rightarrow> 'f state \<Rightarrow> 'f answer list
     \<Rightarrow> pyexc + 'f state"
where
  "save_loop rt now fm instance_id st [] = Inr st"
| "save_loop rt now fm instance_id st (ans # rest) =
     (case fm (ans_field_code ans) of
        None \<Rightarrow> save_loop rt now fm instance_id st rest
      | Some (field_id, data_type) \<Rightarrow>
          (case coerce_value rt data_type (ans_value ans) of
             Inl e \<Rightarrow> Inl e
           | Inr v \<Rightarrow>
               save_loop rt now fm instance_id (upsert_answer rt now instance_id field_id v st)
                 rest))"

text \<open>
  The loop runs inside \<^verbatim>\<open>async with database.transaction()\<close>: an exception rolls the
  writes back, so the result is either the exception or the new state.
\<close>

definition save_answers ::
  "'f pyrt \<Rightarrow> nat \<Rightarrow> 'f state \<Rightarrow> int \<Rightarrow> int \<Rightarrow> 'f answer list \<Rightarrow> pyexc + 'f state"
where
  "save_answers rt now st instance_id step_id answers =
     save_loop rt now (field_map st step_id) instance_id st answers"

section \<open>Submitting a step\<close>

record submit_step_response =
  instance_id :: int
  next_step_id :: "int option"
  next_step_code :: "string option"
  is_complete :: bool
  completed_steps :: "string list"
  available_steps :: "string list"

text \<open>\<^verbatim>\<open>UPDATE instance_steps SET status_code = 'completed', left_at = ... WHERE ...\<close>\<close>

definition complete_step :: "nat \<Rightarrow> int \<Rightarrow> int \<Rightarrow> 'f state \<Rightarrow> 'f state" where
  "complete_step now iid step_id st =
     st\<lparr>instance_steps :=
          map (\<lambda>r. if is_instance_id r = iid \<and> is_step_id r = step_id
                    then r\<lparr>is_status_code := ''completed'', is_left_at := Some now\<rparr> else r)
            (instance_steps st)\<rparr>"

text \<open>\<^verbatim>\<open>UPDATE form_instances SET current_step_id = :step_id, updated_at = ... WHERE id = :id\<close>\<close>

definition move_instance :: "nat \<Rightarrow> int \<Rightarrow> int \<Rightarrow> 'f state \<Rightarrow> 'f state" where
  "move_instance now iid step_id st =
     st\<lparr>form_instances :=
          map (\<lambda>r. if fi_id r = iid
                    then r\<lparr>fi_current_step_id := Some step_id, fi_updated_at := now\<rparr> else r)
            (form_instances st)\<rparr>"

text \<open>\<^verbatim>\<open>INSERT INTO instance_steps (...) VALUES (:id, :step_id, 'entered', CURRENT_TIMESTAMP)\<close>\<close>

definition log_entry :: "nat \<Rightarrow> int \<Rightarrow> int \<Rightarrow> 'f state \<Rightarrow> 'f state" where
  "log_entry now iid step_id st =
     st\<lparr>instance_steps :=
          instance_steps st @
            [\<lparr>is_instance_id = iid, is_step_id = step_id, is_status_code = ''entered'',
              is_entered_at = now, is_left_at = None\<rparr>]\<rparr>"

text \<open>\<^verbatim>\<open>UPDATE form_instances SET status_id = :sid, current_step_id = NULL, ... WHERE id = :id\<close>\<close>

definition finish_instance :: "nat \<Rightarrow> int \<Rightarrow> int \<Rightarrow> 'f state \<Rightarrow> 'f state" where
  "finish_instance now iid status_id st =
     st\<lparr>form_instances :=
          map (\<lambda>r. if fi_id r = iid
                    then r\<lparr>fi_status_id := status_id, fi_current_step_id := None,
                           fi_updated_at := now\<rparr> else r)
            (form_instances st)\<rparr>"

text \<open>
  The endpoint has no transaction of its own: an exception leaves the writes made
  before it in place, so the result is the response or the exception, together
  with the state reached.
\<close>

definition submit_step ::
  "'f pyrt \<Rightarrow> nat \<Rightarrow> 'f state \<Rightarrow> int \<Rightarrow> 'f answer list
     \<Rightarrow> (pyexc + submit_step_response) \<times> 'f state"
where
  "submit_step rt now st iid answers =
     (case find (\<lambda>i. fi_id i = iid) (form_instances st) of
        None \<Rightarrow> (Inl (HTTPException 404), st)
      | Some inst \<Rightarrow>
          if \<not> truthy_id (fi_current_step_id inst) then (Inl (HTTPException 404), st)
          else
            (let current_step_id = the (fi_current_step_id inst)
             in case save_answers rt now st iid current_step_id answers of
                  Inl e \<Rightarrow> (Inl e, st)
                | Inr st1 \<Rightarrow>
                    (let st2 = complete_step now iid current_step_id st1
                     in case determine_next_step rt st2 iid current_step_id of
                          Inl e \<Rightarrow> (Inl e, st2)
                        | Inr next_step \<Rightarrow>
                            if truthy_id next_step then
                              (let st3 = log_entry now iid (the next_step)
                                           (move_instance now iid (the next_step) st2)
                               in case sync_session_state rt st3 iid of
                                    Inl e \<Rightarrow> (Inl e, st3)
                                  | Inr (entry, st4) \<Rightarrow>
                                      (Inr \<lparr>instance_id = iid,
                                            next_step_id = next_step,
                                            next_step_code = ss_current_step_code entry,
                                            is_complete = False,
                                            completed_steps = ss_completed_steps entry,
                                            available_steps = ss_available_steps entry\<rparr>,
                                       st4))
                            else
                              (case get_instance_status_id st2 ''completed'' of
                                 Inl e \<Rightarrow> (Inl e, st2)
                               | Inr status_completed_id \<Rightarrow>
                                   (let st3 = finish_instance now iid status_completed_id st2
                                    in case sync_session_state rt st3 iid of
                                         Inl e \<Rightarrow> (Inl e, st3)
                                       | Inr (entry, st4) \<Rightarrow>
                                           (Inr \<lparr>instance_id = iid,
                                                 next_step_id = None,
                                                 next_step_code = None,
                                                 is_complete = True,
                                                 completed_steps = ss_completed_steps entry,
                                                 available_steps = ss_available_steps entry\<rparr>,
                                            st4))))))"

section \<open>Predicates used in the statements\<close>

text \<open>An integer value is in the range of a double when \<^verbatim>\<open>float\<close> does not overflow on it.\<close>

definition in_float_range :: "'f pyval \<Rightarrow> bool" where
  "in_float_range v = (case v of PInt n \<Rightarrow> \<bar>n\<bar> < float_overflow | _ \<Rightarrow> True)"

text \<open>
  The values that a row of the store hands to Python: \<^verbatim>\<open>NULL\<close>, an integer of 64
  bits, a real or a text.
\<close>

definition sqlite_value :: "'f pyval \<Rightarrow> bool" where
  "sqlite_value v =
     (case v of PBool b \<Rightarrow> False | PInt n \<Rightarrow> - (2 ^ 63) \<le> n \<and> n < 2 ^ 63 | _ \<Rightarrow> True)"

text \<open>The order \<^verbatim>\<open>(priority ascending, id ascending)\<close> on transitions.\<close>

definition priority_then_id :: "step_transitions_row \<Rightarrow> step_transitions_row \<Rightarrow> bool" where
  "priority_then_id a b =
     (st_priority a < st_priority b \<or> (st_priority a = st_priority b \<and> st_id a \<le> st_id b))"

text \<open>
  The rows of \<^verbatim>\<open>instance_answers\<close> for one instance and one field, and what it means
  for a row to hold given values, written at the time \<open>now\<close>.
\<close>

definition answer_rows :: "'f state \<Rightarrow> int \<Rightarrow> int \<Rightarrow> 'f instance_answers_row list" where
  "answer_rows st iid field_id =
     filter (\<lambda>r. ia_instance_id r = iid \<and> ia_field_id r = field_id) (instance_answers st)"

definition holds_values :: "'f bound_values \<Rightarrow> nat \<Rightarrow> 'f instance_answers_row \<Rightarrow> bool" where
  "holds_values v now r =
     (ia_value_text r = value_text v \<and> ia_value_num r = value_num v
      \<and> ia_value_bool r = value_bool v \<and> ia_value_date r = value_date v
      \<and> ia_updated_at r = now)"

section \<open>Concrete states\<close>

text \<open>
  The concrete states below hold no float, and no evaluation on them calls one of
  the operations of the interface: they work on missing answers, booleans,
  integers and texts only. The interface still has to be given to close the terms;
  \<open>rt0\<close> is an instance with a single float, which stands for no arithmetic.
\<close>

definition rt0 :: "unit pyrt" where
  "rt0 = \<lparr>float_of_int = (\<lambda>n. ()), float_of_str = (\<lambda>s. None), float_eq = (\<lambda>x y. True),
          float_truth = (\<lambda>x. True), float_str = (\<lambda>x. []), float_isnan = (\<lambda>x. False),
          numeric_affinity = (\<lambda>v. v)\<rparr>"

text \<open>The dictionary tables as \<^verbatim>\<open>migrate.py\<close> seeds them; every other table is empty.\<close>

definition seeded :: "unit state" where
  "seeded =
     \<lparr>forms = [], form_steps = [], step_fields = [],
      field_data_types =
        [\<lparr>lk_id = 1, lk_code = ''string''\<rparr>, \<lparr>lk_id = 2, lk_code = ''text''\<rparr>,
         \<lparr>lk_id = 3, lk_code = ''integer''\<rparr>, \<lparr>lk_id = 4, lk_code = ''decimal''\<rparr>,
         \<lparr>lk_id = 5, lk_code = ''boolean''\<rparr>, \<lparr>lk_id = 6, lk_code = ''date''\<rparr>,
         \<lparr>lk_id = 7, lk_code = ''datetime''\<rparr>],
      compare_ops =
        [\<lparr>lk_id = 1, lk_code = ''eq''\<rparr>, \<lparr>lk_id = 2, lk_code = ''ne''\<rparr>,
         \<lparr>lk_id = 3, lk_code = ''gt''\<rparr>, \<lparr>lk_id = 4, lk_code = ''gte''\<rparr>,
         \<lparr>lk_id = 5, lk_code = ''lt''\<rparr>, \<lparr>lk_id = 6, lk_code = ''lte''\<rparr>,
         \<lparr>lk_id = 7, lk_code = ''in''\<rparr>, \<lparr>lk_id = 8, lk_code = ''not_in''\<rparr>,
         \<lparr>lk_id = 9, lk_code = ''like''\<rparr>, \<lparr>lk_id = 10, lk_code = ''ilike''\<rparr>,
         \<lparr>lk_id = 11, lk_code = ''is_true''\<rparr>, \<lparr>lk_id = 12, lk_code = ''is_false''\<rparr>,
         \<lparr>lk_id = 13, lk_code = ''is_empty''\<rparr>, \<lparr>lk_id = 14, lk_code = ''not_empty''\<rparr>],
      instance_statuses =
        [\<lparr>lk_id = 1, lk_code = ''draft''\<rparr>, \<lparr>lk_id = 2, lk_code = ''in_progress''\<rparr>,
         \<lparr>lk_id = 3, lk_code = ''paused''\<rparr>, \<lparr>lk_id = 4, lk_code = ''completed''\<rparr>,
         \<lparr>lk_id = 5, lk_code = ''cancelled''\<rparr>],
      condition_groups = [], conditions = [], step_transitions = [],
      form_instances = [], instance_steps = [], instance_answers = [],
      form_sessions = Map.empty\<rparr>"

definition cond :: "int \<Rightarrow> int \<Rightarrow> int \<Rightarrow> unit conditions_row" where
  "cond group_id field_id op_id =
     \<lparr>c_group_id = group_id, c_field_id = field_id, c_op_id = op_id,
      c_value_text = PNone, c_value_num = PNone, c_value_bool = PNone,
      c_value_date = PNone, c_option_code = PNone, c_position = 100\<rparr>"

text \<open>
  The demo form of \<^verbatim>\<open>migrate.py\<close> (steps 10, 20 and 30, the field \<^verbatim>\<open>is_dev\<close> with id
  101, the groups 1, 2 and 99 and the three transitions), with one instance that
  has just been started at step 10 and has no answer yet.
\<close>

definition demo :: "unit state" where
  "demo = seeded
     \<lparr>forms := [\<lparr>forms_id = 1, forms_code = ''dev_survey''\<rparr>],
      form_steps :=
        [\<lparr>fs_id = 10, fs_code = ''step_1_intro'', fs_is_terminal = False\<rparr>,
         \<lparr>fs_id = 20, fs_code = ''step_2_dev'', fs_is_terminal = False\<rparr>,
         \<lparr>fs_id = 30, fs_code = ''step_3_review'', fs_is_terminal = True\<rparr>],
      step_fields :=
        [\<lparr>sf_id = 101, sf_step_id = 10, sf_code = ''is_dev'', sf_data_type_id = 5\<rparr>,
         \<lparr>sf_id = 201, sf_step_id = 20, sf_code = ''fav_lang'', sf_data_type_id = 1\<rparr>,
         \<lparr>sf_id = 202, sf_step_id = 20, sf_code = ''dev_years'', sf_data_type_id = 3\<rparr>],
      condition_groups :=
        [\<lparr>cg_id = 1, cg_logic_op = ''AND''\<rparr>, \<lparr>cg_id = 2, cg_logic_op = ''AND''\<rparr>,
         \<lparr>cg_id = 99, cg_logic_op = ''AND''\<rparr>],
      conditions := [cond 1 101 11, cond 2 101 12, cond 99 201 14],
      step_transitions :=
        [\<lparr>st_id = 1, st_source_step_id = 10, st_target_step_id = 20,
          st_condition_group_id = 1, st_priority = 10\<rparr>,
         \<lparr>st_id = 2, st_source_step_id = 10, st_target_step_id = 30,
          st_condition_group_id = 2, st_priority = 20\<rparr>,
         \<lparr>st_id = 3, st_source_step_id = 20, st_target_step_id = 30,
          st_condition_group_id = 99, st_priority = 100\<rparr>],
      form_instances :=
        [\<lparr>fi_id = 1, fi_form_id = 1, fi_status_id = 2, fi_current_step_id = Some 10,
          fi_updated_at = 0\<rparr>],
      instance_steps :=
        [\<lparr>is_instance_id = 1, is_step_id = 10, is_status_code = ''entered'',
          is_entered_at = 0, is_left_at = None\<rparr>]\<rparr>"

text \<open>
  The demo form after an administrator has added a route with no condition from
  the terminal step 30 back to step 20 (\<^verbatim>\<open>create_step_route\<close> accepts any source
  step of the form), with the instance on step 30.
\<close>

definition demo_terminal_route :: "unit state" where
  "demo_terminal_route = demo
     \<lparr>condition_groups := condition_groups demo @ [\<lparr>cg_id = 100, cg_logic_op = ''AND''\<rparr>],
      step_transitions := step_transitions demo @
        [\<lparr>st_id = 4, st_source_step_id = 30, st_target_step_id = 20,
          st_condition_group_id = 100, st_priority = 100\<rparr>],
      form_instances :=
        [\<lparr>fi_id = 1, fi_form_id = 1, fi_status_id = 2, fi_current_step_id = Some 30,
          fi_updated_at = 1\<rparr>],
      instance_steps :=
        [\<lparr>is_instance_id = 1, is_step_id = 10, is_status_code = ''completed'',
          is_entered_at = 0, is_left_at = Some 1\<rparr>,
         \<lparr>is_instance_id = 1, is_step_id = 30, is_status_code = ''entered'',
          is_entered_at = 1, is_left_at = None\<rparr>]\<rparr>"

text \<open>
  The demo form with the instance on step 20, whose only transition asks for a
  non-empty \<^verbatim>\<open>fav_lang\<close>; the instance has answered \<^verbatim>\<open>is_dev\<close> only.
\<close>

definition demo_step2 :: "unit state" where
  "demo_step2 = demo
     \<lparr>form_instances :=
        [\<lparr>fi_id = 1, fi_form_id = 1, fi_status_id = 2, fi_current_step_id = Some 20,
          fi_updated_at = 1\<rparr>],
      instance_steps :=
        [\<lparr>is_instance_id = 1, is_step_id = 10, is_status_code = ''completed'',
          is_entered_at = 0, is_left_at = Some 1\<rparr>,
         \<lparr>is_instance_id = 1, is_step_id = 20, is_status_code = ''entered'',
          is_entered_at = 1, is_left_at = None\<rparr>],
      instance_answers :=
        [\<lparr>ia_instance_id = 1, ia_field_id = 101, ia_value_text = PNone, ia_value_num = PNone,
          ia_value_bool = PInt 1, ia_value_date = PNone, ia_updated_at = 1\<rparr>]\<rparr>"

text \<open>
  Two routes of equal priority out of step 10, both without conditions, in the
  order of their ids.
\<close>

definition demo_ties :: "unit state" where
  "demo_ties = demo
     \<lparr>condition_groups := [\<lparr>cg_id = 1, cg_logic_op = ''AND''\<rparr>, \<lparr>cg_id = 2, cg_logic_op = ''AND''\<rparr>],
      conditions := [],
      step_transitions :=
        [\<lparr>st_id = 1, st_source_step_id = 10, st_target_step_id = 20,
          st_condition_group_id = 1, st_priority = 100\<rparr>,
         \<lparr>st_id = 2, st_source_step_id = 10, st_target_step_id = 30,
          st_condition_group_id = 2, st_priority = 100\<rparr>]\<rparr>"

text \<open>
  The demo form with the two guards of step 10 authored through
  \<^verbatim>\<open>create_step_route\<close> as \<^verbatim>\<open>eq\<close> conditions with \<^verbatim>\<open>value_bool\<close> true and false, which
  the store keeps and hands back as the integers 1 and 0.
\<close>

definition demo_eq :: "unit state" where
  "demo_eq = demo
     \<lparr>conditions :=
        [(cond 1 101 1)\<lparr>c_value_bool := PInt 1\<rparr>, (cond 2 101 1)\<lparr>c_value_bool := PInt 0\<rparr>,
         cond 99 201 14]\<rparr>"

section \<open>Properties of the condition evaluator\<close>

lemma except_value_type_Inl:
  "except_value_type r = Inl x \<Longrightarrow> r = Inl x \<and> x \<noteq> ValueError \<and> x \<noteq> TypeError"
  by (cases r rule: except_value_type.cases) auto

lemma py_float_exc:
  "py_float rt v = Inl x \<Longrightarrow> x = ValueError \<or> x = TypeError \<or> x = OverflowError"
  by (cases v) (auto split: if_splits option.splits)

lemma py_float_in_range:
  "in_float_range v \<Longrightarrow> py_float rt v = Inl x \<Longrightarrow> x = ValueError \<or> x = TypeError"
  by (cases v) (auto simp: in_float_range_def split: if_splits option.splits)

lemma py_str_exc: "py_str rt v = Inl x \<Longrightarrow> x = ValueError"
  by (cases v) (auto split: if_splits)

lemma eq_branch_in_range:
  "in_float_range a \<Longrightarrow> in_float_range e \<Longrightarrow> eq_branch rt a e = Inl x
     \<Longrightarrow> x = ValueError \<or> x = TypeError"
  by (auto simp: eq_branch_def split: if_splits sum.splits dest: py_float_in_range py_str_exc)

lemma eq_branch_exc:
  "eq_branch rt a e = Inl x \<Longrightarrow> x = ValueError \<or> x = TypeError \<or> x = OverflowError"
  by (auto simp: eq_branch_def split: if_splits sum.splits dest: py_float_exc py_str_exc)

lemma check_eq_total:
  assumes "in_float_range a" and "in_float_range e"
  shows "\<exists>b. check_condition rt a ''eq'' e = Inr b"
proof (cases "eq_branch rt a e")
  case (Inl x)
  with assms have "x = ValueError \<or> x = TypeError"
    by (auto dest: eq_branch_in_range)
  with Inl show ?thesis
    by (auto simp: check_condition.simps)
next
  case (Inr b)
  then show ?thesis
    by (simp add: check_condition.simps)
qed

lemma check_condition_total:
  assumes "in_float_range a" and "in_float_range e"
  shows "\<exists>b. check_condition rt a c e = Inr b"
  using check_eq_total [OF assms, of rt]
  by (subst check_condition.simps) (auto simp: check_condition.simps [of _ _ "''eq''"])

lemma check_eq_exc: "check_condition rt a ''eq'' e = Inl x \<Longrightarrow> x = OverflowError"
  by (cases "eq_branch rt a e")
     (auto simp: check_condition.simps dest!: except_value_type_Inl eq_branch_exc)

lemma check_condition_exc: "check_condition rt a c e = Inl x \<Longrightarrow> x = OverflowError"
proof -
  assume h: "check_condition rt a c e = Inl x"
  show ?thesis
  proof (cases "c = ''eq''")
    case True
    with h show ?thesis by (auto dest: check_eq_exc)
  next
    case False
    from h have "c = ''ne''"
      by (subst (asm) check_condition.simps) (auto simp: False split: if_splits)
    with h obtain y where "check_condition rt a ''eq'' e = Inl y" and "x = y"
      by (subst (asm) check_condition.simps)
         (auto split: sum.splits dest!: except_value_type_Inl)
    then show ?thesis by (auto dest: check_eq_exc)
  qed
qed

text \<open>Every integer that an SQLite column can hold (64 bits, signed) is in the range of a double.\<close>

lemma int64_in_float_range: "- (2 ^ 63) \<le> n \<Longrightarrow> n < 2 ^ 63 \<Longrightarrow> in_float_range (PInt n)"
  by (simp add: in_float_range_def float_overflow_def)

text \<open>
  A missing answer reaches the evaluator as \<^verbatim>\<open>None\<close>. \<^verbatim>\<open>bool(None)\<close> is \<^verbatim>\<open>False\<close>, so
  \<^verbatim>\<open>is_true\<close> fails on it and \<^verbatim>\<open>is_false\<close> holds. Under \<^verbatim>\<open>eq\<close> the operand decides: the
  store hands a \<^verbatim>\<open>value_bool\<close> back as the integer 1 or 0, \<^verbatim>\<open>float(None)\<close> raises
  \<^verbatim>\<open>TypeError\<close> and the result is \<^verbatim>\<open>False\<close> for either operand; only against a Python
  \<^verbatim>\<open>bool\<close>, which no row holds, would the booleans be compared.
\<close>

lemma missing_answer_is_true: "check_condition rt PNone ''is_true'' e = Inr False"
  by (simp add: check_condition.simps)

lemma missing_answer_is_false: "check_condition rt PNone ''is_false'' e = Inr True"
  by (simp add: check_condition.simps)

lemma missing_answer_eq_bool: "check_condition rt PNone ''eq'' (PBool b) = Inr (\<not> b)"
  by (simp add: check_condition.simps eq_branch_def)

lemma missing_answer_eq_int: "check_condition rt PNone ''eq'' (PInt n) = Inr False"
  by (simp add: check_condition.simps eq_branch_def)

text \<open>
  C10. For every operator code other than \<^verbatim>\<open>is_true\<close>, \<^verbatim>\<open>is_false\<close>, \<^verbatim>\<open>eq\<close>, \<^verbatim>\<open>ne\<close>,
  \<^verbatim>\<open>is_empty\<close> and \<^verbatim>\<open>not_empty\<close> the evaluation of an atomic condition returns
  \<^verbatim>\<open>False\<close>, whatever the actual and the expected value are. The witness applies
  it to the eight codes that \<^verbatim>\<open>migrate.py\<close> declares and the evaluator does not
  implement.
\<close>

theorem check_condition_other_operator:
  assumes "op_code \<notin> {''is_true'', ''is_false'', ''eq'', ''ne'', ''is_empty'', ''not_empty''}"
  shows "check_condition rt actual_value op_code expected_value = Inr False"
  using assms by (simp add: check_condition.simps)

theorem check_condition_other_operator_witness:
  "list_all (\<lambda>c. check_condition rt0 (PInt 7) c (PInt 3) = Inr False)
     [''gt'', ''gte'', ''lt'', ''lte'', ''in'', ''not_in'', ''like'', ''ilike'']"
proof -
  have "check_condition rt0 (PInt 7) c (PInt 3) = Inr False"
    if "c \<in> set [''gt'', ''gte'', ''lt'', ''lte'', ''in'', ''not_in'', ''like'', ''ilike'']" for c
    using that by (intro check_condition_other_operator) auto
  then show ?thesis
    unfolding list_all_iff by blast
qed

lemma sqlite_value_in_float_range: "sqlite_value v \<Longrightarrow> in_float_range v"
  by (cases v) (auto simp: sqlite_value_def in_float_range_def float_overflow_def)

lemma py_float_not_a_number: "float_of_str rt s = None \<Longrightarrow> py_float rt (PStr s) = Inl ValueError"
  by simp

lemma py_float_missing: "py_float rt PNone = Inl TypeError"
  by simp

text \<open>
  The model of \<^verbatim>\<open>float\<close> has the \<^verbatim>\<open>OverflowError\<close> of an integer beyond the range of a
  double, which the handler does not catch. No row of the store holds such an
  integer.
\<close>

lemma check_condition_overflow:
  "check_condition rt (PInt (2 ^ 1024)) ''eq'' (PInt 1) = Inl OverflowError"
  by (simp add: check_condition.simps eq_branch_def float_overflow_def)

text \<open>
  C7, as the code has it. On the values that the store hands to the evaluator
  (\<^verbatim>\<open>NULL\<close>, integers of 64 bits, reals, texts) the evaluation of an atomic
  condition is total: for every operator code it returns a boolean and raises
  nothing. A coercion that fails with \<^verbatim>\<open>ValueError\<close> or \<^verbatim>\<open>TypeError\<close> (a text that is
  not a number, or a missing answer, compared with a number) gives \<^verbatim>\<open>False\<close> under
  \<^verbatim>\<open>eq\<close>. Under \<^verbatim>\<open>ne\<close> it gives \<^verbatim>\<open>True\<close>, not \<^verbatim>\<open>False\<close>: \<^verbatim>\<open>ne\<close> negates the result of
  \<^verbatim>\<open>eq\<close>, in which the failure has already become \<^verbatim>\<open>False\<close>.
\<close>

theorem check_condition_total_on_store_values:
  "(sqlite_value actual_value \<and> sqlite_value expected_value
      \<longrightarrow> (\<exists>b. check_condition rt actual_value op_code expected_value = Inr b))
   \<and> (is_int_or_float expected_value \<and> \<not> is_bool expected_value
        \<and> (py_float rt actual_value = Inl ValueError \<or> py_float rt actual_value = Inl TypeError)
      \<longrightarrow> check_condition rt actual_value ''eq'' expected_value = Inr False
          \<and> check_condition rt actual_value ''ne'' expected_value = Inr True)"
proof (intro conjI impI)
  assume "sqlite_value actual_value \<and> sqlite_value expected_value"
  then show "\<exists>b. check_condition rt actual_value op_code expected_value = Inr b"
    by (simp add: check_condition_total sqlite_value_in_float_range)
next
  assume h: "is_int_or_float expected_value \<and> \<not> is_bool expected_value
        \<and> (py_float rt actual_value = Inl ValueError \<or> py_float rt actual_value = Inl TypeError)"
  then have "eq_branch rt actual_value expected_value = Inl ValueError
           \<or> eq_branch rt actual_value expected_value = Inl TypeError"
    by (auto simp: eq_branch_def)
  then show eq: "check_condition rt actual_value ''eq'' expected_value = Inr False"
    by (auto simp: check_condition.simps)
  show "check_condition rt actual_value ''ne'' expected_value = Inr True"
    by (subst check_condition.simps) (simp add: eq)
qed

theorem check_condition_total_on_store_values_witness:
  "(\<exists>b. check_condition rt0 (PInt (2 ^ 63 - 1)) ''ne'' (PStr ''abc'') = Inr b)
   \<and> check_condition rt0 PNone ''eq'' (PInt 1) = Inr False
   \<and> check_condition rt0 PNone ''ne'' (PInt 1) = Inr True"
proof -
  have r1: "sqlite_value (PInt (2 ^ 63 - 1) :: unit pyval)"
    by (simp add: sqlite_value_def)
  have r2: "sqlite_value (PStr ''abc'' :: unit pyval)"
    by (simp add: sqlite_value_def)
  show ?thesis
    using check_condition_total_on_store_values
            [where actual_value = "PInt (2 ^ 63 - 1)" and expected_value = "PStr ''abc''"
               and rt = rt0 and op_code = "''ne''", THEN conjunct1]
          check_condition_total_on_store_values
            [where actual_value = PNone and expected_value = "PInt 1" and rt = rt0,
             THEN conjunct2]
          r1 r2
    by simp
qed

theorem check_condition_ne_counterexample:
  "py_float rt0 PNone = Inl TypeError
   \<and> check_condition rt0 PNone ''ne'' (PInt 1) = Inr True"
  by (simp add: check_condition.simps eq_branch_def)

section \<open>Properties of group evaluation and transition resolution\<close>

lemma conditions_rows_empty:
  "\<forall>c \<in> set (conditions st). c_group_id c \<noteq> group_id \<Longrightarrow> conditions_rows st group_id = []"
proof -
  assume h: "\<forall>c \<in> set (conditions st). c_group_id c \<noteq> group_id"
  have "[(c, lk_code op). c \<leftarrow> conditions st, op \<leftarrow> compare_ops st,
          c_op_id c = lk_id op \<and> c_group_id c = group_id] = []"
    using h by (induction "conditions st") auto
  then show ?thesis
    by (simp only: conditions_rows_def sort_key_simps)
qed

text \<open>
  C6. For every existing condition group with zero conditions, group evaluation
  returns \<^verbatim>\<open>True\<close>, whatever its logic operator and whatever answers are recorded.
\<close>

theorem evaluate_group_empty:
  assumes "\<exists>g \<in> set (condition_groups st). cg_id g = group_id"
    and "\<forall>c \<in> set (conditions st). c_group_id c \<noteq> group_id"
  shows "evaluate_group rt st group_id all_answers = Inr True"
proof -
  from assms(1) obtain g where "find (\<lambda>g. cg_id g = group_id) (condition_groups st) = Some g"
    by (cases "find (\<lambda>g. cg_id g = group_id) (condition_groups st)") (auto simp: find_None_iff)
  with conditions_rows_empty [OF assms(2)] show ?thesis
    by (simp add: evaluate_group_def)
qed

theorem evaluate_group_empty_witness:
  "evaluate_group rt0 demo_ties 2 (get_all_answers demo_ties 1) = Inr True"
proof -
  have a: "\<exists>g \<in> set (condition_groups demo_ties). cg_id g = 2"
    by (simp add: demo_ties_def demo_def seeded_def)
  have b: "\<forall>c \<in> set (conditions demo_ties). c_group_id c \<noteq> 2"
    by (simp add: demo_ties_def demo_def seeded_def)
  show ?thesis
    by (rule evaluate_group_empty [OF a b])
qed

text \<open>
  C2, as the code has it. \<^verbatim>\<open>_get_valid_forward_steps\<close> does not read \<^verbatim>\<open>is_terminal\<close>:
  it returns the targets of the eligible transitions of a terminal step like those
  of any other step. The short cut for terminal steps is in
  \<^verbatim>\<open>_determine_next_step\<close>: for every existing step whose \<^verbatim>\<open>is_terminal\<close> flag is
  true it returns \<^verbatim>\<open>None\<close> before any transition or guard is read, whatever the
  outgoing transitions, the groups and the recorded answers are.
\<close>

theorem determine_next_step_terminal:
  assumes "find (\<lambda>s. fs_id s = step_id) (form_steps st) = Some step"
    and "fs_is_terminal step"
  shows "determine_next_step rt st iid step_id = Inr None"
  using assms by (simp add: determine_next_step_def)

theorem determine_next_step_terminal_witness:
  "determine_next_step rt0 demo_terminal_route 1 30 = Inr None"
proof -
  have a: "find (\<lambda>s. fs_id s = 30) (form_steps demo_terminal_route)
             = Some \<lparr>fs_id = 30, fs_code = ''step_3_review'', fs_is_terminal = True\<rparr>"
    by (simp add: demo_terminal_route_def demo_def seeded_def)
  show ?thesis
    by (rule determine_next_step_terminal [OF a]) simp
qed

theorem forward_steps_terminal_counterexample:
  "find (\<lambda>s. fs_id s = 30) (form_steps demo_terminal_route)
     = Some \<lparr>fs_id = 30, fs_code = ''step_3_review'', fs_is_terminal = True\<rparr>
   \<and> get_valid_forward_steps rt0 demo_terminal_route 1 30 = Inr [20]"
  by code_simp

text \<open>
  C3, as the code has it. For every instance and every existing step that is not
  terminal, \<^verbatim>\<open>_determine_next_step\<close> is the first element of
  \<^verbatim>\<open>_get_valid_forward_steps\<close>, or \<^verbatim>\<open>None\<close> when that list is empty (and it raises
  what the latter raises).
\<close>

theorem determine_next_step_first:
  assumes "find (\<lambda>s. fs_id s = step_id) (form_steps st) = Some step"
    and "\<not> fs_is_terminal step"
  shows "determine_next_step rt st iid step_id =
           (case get_valid_forward_steps rt st iid step_id of
              Inl e \<Rightarrow> Inl e
            | Inr forward \<Rightarrow> Inr (case forward of [] \<Rightarrow> None | x # xs \<Rightarrow> Some x))"
  using assms by (simp add: determine_next_step_def)

theorem determine_next_step_first_witness:
  "determine_next_step rt0 demo 1 10 = Inr (Some 30)
   \<and> get_valid_forward_steps rt0 demo 1 10 = Inr [30]"
proof -
  have a: "find (\<lambda>s. fs_id s = 10) (form_steps demo)
             = Some \<lparr>fs_id = 10, fs_code = ''step_1_intro'', fs_is_terminal = False\<rparr>"
    by (simp add: demo_def seeded_def)
  have b: "get_valid_forward_steps rt0 demo 1 10 = Inr [30]"
    by code_simp
  show ?thesis
    using determine_next_step_first [OF a, of rt0 1] b by simp
qed

theorem determine_next_step_first_counterexample:
  "determine_next_step rt0 demo_terminal_route 1 30 = Inr None
   \<and> get_valid_forward_steps rt0 demo_terminal_route 1 30 = Inr [20]"
  by code_simp

text \<open>
  The forward steps are the targets of the transitions whose guard is true, in the
  order of the query.
\<close>

lemma allowed_targets_filter:
  "allowed_targets rt st ans ts = Inr r \<Longrightarrow>
     r = map st_target_step_id
           (filter (\<lambda>t. evaluate_group rt st (st_condition_group_id t) ans = Inr True) ts)"
  by (induction ts arbitrary: r) (auto split: sum.splits if_splits)

lemma forward_steps_priority_order:
  assumes "get_valid_forward_steps rt st iid s = Inr r"
  shows "r = map st_target_step_id
           (filter (\<lambda>t. evaluate_group rt st (st_condition_group_id t) (get_all_answers st iid) = Inr True)
              (transitions_rows st s))"
  using assms by (auto simp: get_valid_forward_steps_def split: if_splits dest: allowed_targets_filter)

lemma transitions_rows_sorted: "sorted (map st_priority (transitions_rows st s))"
  by (simp add: transitions_rows_def)

lemma transitions_rows_set:
  "set (transitions_rows st s) = {t \<in> set (step_transitions st). st_source_step_id t = s}"
  by (auto simp: transitions_rows_def)

lemma transitions_rows_ties:
  "filter (\<lambda>t. st_priority t = k) (transitions_rows st s)
     = filter (\<lambda>t. st_priority t = k) (filter (\<lambda>t. st_source_step_id t = s) (step_transitions st))"
  by (simp add: transitions_rows_def sort_key_stable)

lemma insort_priority_then_id:
  assumes "sorted_wrt priority_then_id ys" and "\<forall>y \<in> set ys. st_id x \<le> st_id y"
  shows "sorted_wrt priority_then_id (insort_key st_priority x ys)"
  using assms
proof (induction ys)
  case Nil
  then show ?case by simp
next
  case (Cons y ys)
  show ?case
  proof (cases "st_priority x \<le> st_priority y")
    case True
    have "priority_then_id x z" if "z \<in> set (y # ys)" for z
    proof -
      from that Cons.prems(1) have "st_priority y \<le> st_priority z"
        by (auto simp: priority_then_id_def)
      moreover from that Cons.prems(2) have "st_id x \<le> st_id z" by auto
      ultimately show ?thesis
        using True by (auto simp: priority_then_id_def)
    qed
    with True Cons.prems(1) show ?thesis by simp
  next
    case False
    then have "priority_then_id y x"
      by (simp add: priority_then_id_def)
    with False Cons show ?thesis
      by (auto simp: set_insort_key)
  qed
qed

lemma sort_key_priority_then_id:
  "sorted (map st_id xs) \<Longrightarrow> sorted_wrt priority_then_id (sort_key st_priority xs)"
  by (induction xs) (auto intro: insort_priority_then_id)

text \<open>
  C8. \<^verbatim>\<open>_get_valid_forward_steps\<close> loads the outgoing transitions of the source step
  ordered by ascending priority, with the ascending transition id as the
  tie-break, and returns the targets of the eligible transitions in exactly that
  order. The query says \<^verbatim>\<open>ORDER BY priority\<close> only; the tie-break is the order in
  which the store keeps and yields the rows, by ascending id.
\<close>

theorem forward_steps_priority_id_order:
  assumes "sorted (map st_id (step_transitions st))"
  shows "sorted_wrt priority_then_id (transitions_rows st s)
       \<and> set (transitions_rows st s) = {t \<in> set (step_transitions st). st_source_step_id t = s}
       \<and> length (transitions_rows st s)
           = length (filter (\<lambda>t. st_source_step_id t = s) (step_transitions st))
       \<and> (\<forall>r. get_valid_forward_steps rt st iid s = Inr r \<longrightarrow>
             r = map st_target_step_id
                   (filter (\<lambda>t. evaluate_group rt st (st_condition_group_id t)
                                   (get_all_answers st iid) = Inr True)
                      (transitions_rows st s)))"
proof -
  from assms have "sorted (map st_id (filter (\<lambda>t. st_source_step_id t = s) (step_transitions st)))"
    by (rule sorted_filter)
  then have "sorted_wrt priority_then_id (transitions_rows st s)"
    unfolding transitions_rows_def by (rule sort_key_priority_then_id)
  moreover have "length (transitions_rows st s)
           = length (filter (\<lambda>t. st_source_step_id t = s) (step_transitions st))"
    by (simp add: transitions_rows_def)
  ultimately show ?thesis
    using transitions_rows_set [of st s] forward_steps_priority_order [of rt st iid s]
    by blast
qed

theorem forward_steps_priority_id_order_witness:
  "sorted_wrt priority_then_id (transitions_rows demo_ties 10)
   \<and> map st_id (transitions_rows demo_ties 10) = [1, 2]
   \<and> map st_priority (transitions_rows demo_ties 10) = [100, 100]
   \<and> get_valid_forward_steps rt0 demo_ties 1 10 = Inr [20, 30]"
proof -
  have a: "sorted (map st_id (step_transitions demo_ties))"
    by (simp add: demo_ties_def)
  have b: "map st_id (transitions_rows demo_ties 10) = [1, 2]"
    by code_simp
  have c: "map st_priority (transitions_rows demo_ties 10) = [100, 100]"
    by code_simp
  have d: "get_valid_forward_steps rt0 demo_ties 1 10 = Inr [20, 30]"
    by code_simp
  from forward_steps_priority_id_order [OF a, of 10 rt0 1] b c d show ?thesis
    by simp
qed

section \<open>Properties of navigation\<close>

lemma completed_step_ids_eq:
  "completed_step_ids st iid =
     {is_step_id r | r. r \<in> set (instance_steps st) \<and> is_instance_id r = iid
        \<and> is_status_code r = ''completed''}"
  by (auto simp: completed_step_ids_def)

text \<open>
  C5. \<^verbatim>\<open>_validate_navigation\<close> permits exactly the targets among the completed
  steps, the current step and the forward steps of the current step, and rejects
  every other target with the HTTP status 403, also a step that exists elsewhere
  in the form. The current step is a row id of the store, which is never 0 (the
  ids start at 1, and the engine writes a current step only under
  \<^verbatim>\<open>if next_step_id:\<close> or from a start step that is not 0), so \<^verbatim>\<open>if current_step_id:\<close>
  tells a current step from none; without a current step exactly the completed
  steps are permitted.
\<close>

theorem validate_navigation_exact:
  "(c \<noteq> 0 \<and> get_valid_forward_steps rt st iid c = Inr forward_ids \<longrightarrow>
      validate_navigation rt st iid (Some c) target =
        (if target \<in> {is_step_id r | r. r \<in> set (instance_steps st) \<and> is_instance_id r = iid
                         \<and> is_status_code r = ''completed''} \<union> {c} \<union> set forward_ids
         then Inr () else Inl (HTTPException 403)))
   \<and> validate_navigation rt st iid None target =
        (if target \<in> {is_step_id r | r. r \<in> set (instance_steps st) \<and> is_instance_id r = iid
                         \<and> is_status_code r = ''completed''}
         then Inr () else Inl (HTTPException 403))"
  unfolding completed_step_ids_eq [symmetric]
  by (auto simp: validate_navigation_def)

theorem validate_navigation_exact_witness:
  "validate_navigation rt0 demo_terminal_route 1 (Some 30) 10 = Inr ()
   \<and> validate_navigation rt0 demo_terminal_route 1 (Some 30) 30 = Inr ()
   \<and> validate_navigation rt0 demo_terminal_route 1 (Some 30) 20 = Inr ()
   \<and> validate_navigation rt0 demo_step2 1 (Some 20) 30 = Inl (HTTPException 403)
   \<and> validate_navigation rt0 demo_step2 1 None 20 = Inl (HTTPException 403)"
proof -
  have f: "get_valid_forward_steps rt0 demo_terminal_route 1 30 = Inr [20]"
    by code_simp
  have g: "get_valid_forward_steps rt0 demo_step2 1 20 = Inr []"
    by code_simp
  have s1: "instance_steps demo_terminal_route =
        [\<lparr>is_instance_id = 1, is_step_id = 10, is_status_code = ''completed'',
          is_entered_at = 0, is_left_at = Some 1\<rparr>,
         \<lparr>is_instance_id = 1, is_step_id = 30, is_status_code = ''entered'',
          is_entered_at = 1, is_left_at = None\<rparr>]"
    by (simp add: demo_terminal_route_def)
  have s2: "instance_steps demo_step2 =
        [\<lparr>is_instance_id = 1, is_step_id = 10, is_status_code = ''completed'',
          is_entered_at = 0, is_left_at = Some 1\<rparr>,
         \<lparr>is_instance_id = 1, is_step_id = 20, is_status_code = ''entered'',
          is_entered_at = 1, is_left_at = None\<rparr>]"
    by (simp add: demo_step2_def)
  have c1: "{is_step_id r | r. r \<in> set (instance_steps demo_terminal_route)
               \<and> is_instance_id r = 1 \<and> is_status_code r = ''completed''} = {10}"
    unfolding completed_step_ids_eq [symmetric] by (simp add: completed_step_ids_def s1)
  have c2: "{is_step_id r | r. r \<in> set (instance_steps demo_step2)
               \<and> is_instance_id r = 1 \<and> is_status_code r = ''completed''} = {10}"
    unfolding completed_step_ids_eq [symmetric] by (simp add: completed_step_ids_def s2)
  show ?thesis
    using validate_navigation_exact [of 30 rt0 demo_terminal_route 1 "[20]" 10]
          validate_navigation_exact [of 30 rt0 demo_terminal_route 1 "[20]" 30]
          validate_navigation_exact [of 30 rt0 demo_terminal_route 1 "[20]" 20]
          validate_navigation_exact [of 20 rt0 demo_step2 1 "[]" 30]
          validate_navigation_exact [of 20 rt0 demo_step2 1 "[]" 20]
          f g
    unfolding c1 c2 by simp
qed

section \<open>The scenario of the demo form without an answer\<close>

lemma fold_upd_other:
  "\<forall>row \<in> set rows. k row \<noteq> f \<Longrightarrow> fold (\<lambda>row m. m(k row \<mapsto> v row)) rows m0 f = m0 f"
  by (induction rows arbitrary: m0) auto

lemma get_all_answers_missing:
  assumes "\<forall>r \<in> set (instance_answers st). ia_instance_id r = iid \<longrightarrow> ia_field_id r \<noteq> f"
  shows "get_all_answers st iid f = None"
proof -
  have "\<forall>row \<in> set (filter (\<lambda>row. ia_instance_id row = iid) (instance_answers st)).
          ia_field_id row \<noteq> f"
    using assms by simp
  then show ?thesis
    unfolding get_all_answers_def by (subst fold_upd_other) simp_all
qed

lemma evaluate_group_single:
  assumes "\<exists>g \<in> set (condition_groups st). cg_id g = gid"
    and "conditions_rows st gid = [(c, op_code)]"
  shows "evaluate_group rt st gid ans =
           check_condition rt (case ans (c_field_id c) of None \<Rightarrow> PNone | Some v \<Rightarrow> v) op_code
             (first_not_none [c_value_bool c, c_value_text c, c_value_num c, c_value_date c,
                              c_option_code c])"
proof -
  from assms(1) obtain g where "find (\<lambda>g. cg_id g = gid) (condition_groups st) = Some g"
    by (cases "find (\<lambda>g. cg_id g = gid) (condition_groups st)") (auto simp: find_None_iff)
  then show ?thesis
    using assms(2) by (auto simp: evaluate_group_def Let_def split: sum.splits)
qed

text \<open>
  C1, as the code has it. Step \<open>s1\<close> has two transitions: priority 10 to \<open>s2\<close>,
  guarded by "the field is true", and priority 20 to \<open>s3\<close>, guarded by "the field is
  false"; no answer is recorded for the field. What the guards give depends on
  how they are authored. As \<^verbatim>\<open>eq\<close> conditions on \<^verbatim>\<open>value_bool\<close>, which the store hands
  back as 1 and 0, both are false (\<^verbatim>\<open>float(None)\<close> raises \<^verbatim>\<open>TypeError\<close>):
  \<^verbatim>\<open>_get_valid_forward_steps\<close> returns the empty list and \<^verbatim>\<open>_determine_next_step\<close>
  returns \<^verbatim>\<open>None\<close>. As the operators \<^verbatim>\<open>is_true\<close> and \<^verbatim>\<open>is_false\<close>, which is how the
  demo data of \<^verbatim>\<open>migrate.py\<close> has them, the first guard is false and the second one
  is true, since \<^verbatim>\<open>bool(None) == False\<close> holds: \<^verbatim>\<open>_get_valid_forward_steps\<close> returns
  \<open>[s3]\<close> and \<^verbatim>\<open>_determine_next_step\<close> returns \<open>s3\<close>.
\<close>

theorem missing_answer_forward_steps:
  assumes steps: "find (\<lambda>s. fs_id s = s1) (form_steps st) = Some step" "\<not> fs_is_terminal step"
    and routes: "filter (\<lambda>t. st_source_step_id t = s1) (step_transitions st) = [t1, t2]"
      "st_priority t1 = 10" "st_priority t2 = 20"
    and groups: "\<exists>g \<in> set (condition_groups st). cg_id g = st_condition_group_id t1"
      "\<exists>g \<in> set (condition_groups st). cg_id g = st_condition_group_id t2"
    and guard1: "conditions_rows st (st_condition_group_id t1) = [(c1, op1)]" "c_field_id c1 = f"
    and guard2: "conditions_rows st (st_condition_group_id t2) = [(c2, op2)]" "c_field_id c2 = f"
    and no_answer: "\<forall>r \<in> set (instance_answers st). ia_instance_id r = iid \<longrightarrow> ia_field_id r \<noteq> f"
  shows "(op1 = ''eq'' \<and> c_value_bool c1 = PInt 1 \<and> op2 = ''eq'' \<and> c_value_bool c2 = PInt 0
            \<longrightarrow> evaluate_group rt st (st_condition_group_id t1) (get_all_answers st iid) = Inr False
              \<and> evaluate_group rt st (st_condition_group_id t2) (get_all_answers st iid) = Inr False
              \<and> get_valid_forward_steps rt st iid s1 = Inr []
              \<and> determine_next_step rt st iid s1 = Inr None)
       \<and> (op1 = ''is_true'' \<and> op2 = ''is_false''
            \<longrightarrow> evaluate_group rt st (st_condition_group_id t1) (get_all_answers st iid) = Inr False
              \<and> evaluate_group rt st (st_condition_group_id t2) (get_all_answers st iid) = Inr True
              \<and> get_valid_forward_steps rt st iid s1 = Inr [st_target_step_id t2]
              \<and> determine_next_step rt st iid s1 = Inr (Some (st_target_step_id t2)))"
proof -
  have none: "get_all_answers st iid f = None"
    by (rule get_all_answers_missing [OF no_answer])
  have e1: "evaluate_group rt st (st_condition_group_id t1) (get_all_answers st iid) =
              check_condition rt PNone op1
                (first_not_none [c_value_bool c1, c_value_text c1, c_value_num c1,
                                 c_value_date c1, c_option_code c1])"
    by (simp only: evaluate_group_single [OF groups(1) guard1(1)] guard1(2) none option.case)
  have e2: "evaluate_group rt st (st_condition_group_id t2) (get_all_answers st iid) =
              check_condition rt PNone op2
                (first_not_none [c_value_bool c2, c_value_text c2, c_value_num c2,
                                 c_value_date c2, c_option_code c2])"
    by (simp only: evaluate_group_single [OF groups(2) guard2(1)] guard2(2) none option.case)
  have rows: "transitions_rows st s1 = [t1, t2]"
    by (simp add: transitions_rows_def routes)
  show ?thesis
  proof (intro conjI impI)
    assume h: "op1 = ''eq'' \<and> c_value_bool c1 = PInt 1 \<and> op2 = ''eq'' \<and> c_value_bool c2 = PInt 0"
    from h show g1: "evaluate_group rt st (st_condition_group_id t1) (get_all_answers st iid) = Inr False"
      by (simp add: e1 missing_answer_eq_int)
    from h show g2: "evaluate_group rt st (st_condition_group_id t2) (get_all_answers st iid) = Inr False"
      by (simp add: e2 missing_answer_eq_int)
    show fwd: "get_valid_forward_steps rt st iid s1 = Inr []"
      by (simp add: get_valid_forward_steps_def rows g1 g2)
    show "determine_next_step rt st iid s1 = Inr None"
      by (simp add: determine_next_step_def steps fwd)
  next
    assume h: "op1 = ''is_true'' \<and> op2 = ''is_false''"
    from h show g1: "evaluate_group rt st (st_condition_group_id t1) (get_all_answers st iid) = Inr False"
      by (simp add: e1 missing_answer_is_true)
    from h show g2: "evaluate_group rt st (st_condition_group_id t2) (get_all_answers st iid) = Inr True"
      by (simp add: e2 missing_answer_is_false)
    show fwd: "get_valid_forward_steps rt st iid s1 = Inr [st_target_step_id t2]"
      by (simp add: get_valid_forward_steps_def rows g1 g2)
    show "determine_next_step rt st iid s1 = Inr (Some (st_target_step_id t2))"
      by (simp add: determine_next_step_def steps fwd)
  qed
qed

theorem missing_answer_forward_steps_witness:
  "(evaluate_group rt0 demo_eq 1 (get_all_answers demo_eq 1) = Inr False
    \<and> evaluate_group rt0 demo_eq 2 (get_all_answers demo_eq 1) = Inr False
    \<and> get_valid_forward_steps rt0 demo_eq 1 10 = Inr []
    \<and> determine_next_step rt0 demo_eq 1 10 = Inr None)
   \<and> (evaluate_group rt0 demo 1 (get_all_answers demo 1) = Inr False
    \<and> evaluate_group rt0 demo 2 (get_all_answers demo 1) = Inr True
    \<and> get_valid_forward_steps rt0 demo 1 10 = Inr [30]
    \<and> determine_next_step rt0 demo 1 10 = Inr (Some 30))"
proof -
  let ?t1 = "\<lparr>st_id = 1, st_source_step_id = 10, st_target_step_id = 20,
               st_condition_group_id = 1, st_priority = 10\<rparr>"
  let ?t2 = "\<lparr>st_id = 2, st_source_step_id = 10, st_target_step_id = 30,
               st_condition_group_id = 2, st_priority = 20\<rparr>"
  have a: "find (\<lambda>s. fs_id s = 10) (form_steps demo)
             = Some \<lparr>fs_id = 10, fs_code = ''step_1_intro'', fs_is_terminal = False\<rparr>"
    by (simp add: demo_def seeded_def)
  have b: "filter (\<lambda>t. st_source_step_id t = 10) (step_transitions demo) = [?t1, ?t2]"
    by (simp add: demo_def seeded_def)
  have c: "\<exists>g \<in> set (condition_groups demo). cg_id g = st_condition_group_id ?t1"
    "\<exists>g \<in> set (condition_groups demo). cg_id g = st_condition_group_id ?t2"
    by (simp_all add: demo_def seeded_def)
  have d1: "conditions_rows demo (st_condition_group_id ?t1) = [(cond 1 101 11, ''is_true'')]"
    by code_simp
  have d2: "conditions_rows demo (st_condition_group_id ?t2) = [(cond 2 101 12, ''is_false'')]"
    by code_simp
  have e: "\<forall>r \<in> set (instance_answers demo). ia_instance_id r = 1 \<longrightarrow> ia_field_id r \<noteq> 101"
    by (simp add: demo_def seeded_def)
  have a': "find (\<lambda>s. fs_id s = 10) (form_steps demo_eq)
             = Some \<lparr>fs_id = 10, fs_code = ''step_1_intro'', fs_is_terminal = False\<rparr>"
    by (simp add: demo_eq_def demo_def seeded_def)
  have b': "filter (\<lambda>t. st_source_step_id t = 10) (step_transitions demo_eq) = [?t1, ?t2]"
    by (simp add: demo_eq_def demo_def seeded_def)
  have c': "\<exists>g \<in> set (condition_groups demo_eq). cg_id g = st_condition_group_id ?t1"
    "\<exists>g \<in> set (condition_groups demo_eq). cg_id g = st_condition_group_id ?t2"
    by (simp_all add: demo_eq_def demo_def seeded_def)
  have d1': "conditions_rows demo_eq (st_condition_group_id ?t1)
               = [((cond 1 101 1)\<lparr>c_value_bool := PInt 1\<rparr>, ''eq'')]"
    by code_simp
  have d2': "conditions_rows demo_eq (st_condition_group_id ?t2)
               = [((cond 2 101 1)\<lparr>c_value_bool := PInt 0\<rparr>, ''eq'')]"
    by code_simp
  have e': "\<forall>r \<in> set (instance_answers demo_eq). ia_instance_id r = 1 \<longrightarrow> ia_field_id r \<noteq> 101"
    by (simp add: demo_eq_def demo_def seeded_def)
  have f1: "c_field_id (cond 1 101 11) = 101" "c_field_id (cond 2 101 12) = 101"
    "c_field_id ((cond 1 101 1)\<lparr>c_value_bool := PInt 1\<rparr> :: unit conditions_row) = 101"
    "c_field_id ((cond 2 101 1)\<lparr>c_value_bool := PInt 0\<rparr> :: unit conditions_row) = 101"
    "c_value_bool ((cond 1 101 1)\<lparr>c_value_bool := PInt 1\<rparr> :: unit conditions_row) = PInt 1"
    "c_value_bool ((cond 2 101 1)\<lparr>c_value_bool := PInt 0\<rparr> :: unit conditions_row) = PInt 0"
    by (simp_all add: cond_def)
  have p: "st_priority ?t1 = 10" "st_priority ?t2 = 20" "\<not> False"
    by simp_all
  from missing_answer_forward_steps
         [OF a' _ b' p(1) p(2) c' d1' f1(3) d2' f1(4) e', of rt0, THEN conjunct1]
       missing_answer_forward_steps
         [OF a _ b p(1) p(2) c d1 f1(1) d2 f1(2) e, of rt0, THEN conjunct2]
  show ?thesis
    by (simp add: f1)
qed

theorem missing_answer_forward_steps_counterexample:
  "\<not> (evaluate_group rt0 demo 1 (get_all_answers demo 1) = Inr False
      \<and> evaluate_group rt0 demo 2 (get_all_answers demo 1) = Inr False
      \<and> get_valid_forward_steps rt0 demo 1 10 = Inr []
      \<and> determine_next_step rt0 demo 1 10 = Inr None)"
proof -
  have "get_valid_forward_steps rt0 demo 1 10 = Inr [30]"
    by code_simp
  then show ?thesis by simp
qed

section \<open>Properties of the answer store\<close>

lemma save_loop_filter:
  "save_loop rt now fm iid st answers =
     save_loop rt now fm iid st (filter (\<lambda>a. fm (ans_field_code a) \<noteq> None) answers)"
  by (induction answers arbitrary: st) (auto split: option.splits sum.splits)

lemma save_loop_unknown:
  "\<forall>a \<in> set answers. fm (ans_field_code a) = None \<Longrightarrow> save_loop rt now fm iid st answers = Inr st"
  by (induction answers) auto

lemma save_loop_append:
  "save_loop rt now fm iid st (xs @ ys) =
     (case save_loop rt now fm iid st xs of
        Inl e \<Rightarrow> Inl e
      | Inr st1 \<Rightarrow> save_loop rt now fm iid st1 ys)"
  by (induction xs arbitrary: st) (auto split: option.splits sum.splits)

lemma upsert_answer_tables:
  "upsert_answer rt now iid fid v st =
     st\<lparr>instance_answers := instance_answers (upsert_answer rt now iid fid v st)\<rparr>"
  by (simp add: upsert_answer_def Let_def)

lemma save_loop_tables:
  "save_loop rt now fm iid st answers = Inr st' \<Longrightarrow> st' = st\<lparr>instance_answers := instance_answers st'\<rparr>"
proof (induction answers arbitrary: st)
  case Nil
  then show ?case by simp
next
  case (Cons a answers)
  show ?case
  proof (cases "fm (ans_field_code a)")
    case None
    with Cons show ?thesis by simp
  next
    case (Some p)
    obtain fid dt where p: "p = (fid, dt)" by (cases p)
    from Cons.prems Some p obtain v where
      v: "coerce_value rt dt (ans_value a) = Inr v"
      and r: "save_loop rt now fm iid (upsert_answer rt now iid fid v st) answers = Inr st'"
      by (auto split: sum.splits)
    from Cons.IH [OF r]
    have "st' = (upsert_answer rt now iid fid v st)\<lparr>instance_answers := instance_answers st'\<rparr>" .
    then show ?thesis
      by (subst (asm) upsert_answer_tables) simp
  qed
qed

lemma rows_update_other:
  assumes "fid' \<noteq> fid"
  shows "filter (\<lambda>r. ia_instance_id r = iid \<and> ia_field_id r = fid)
           (map (\<lambda>r. if ia_instance_id r = iid \<and> ia_field_id r = fid'
                      then r\<lparr>ia_value_text := a, ia_value_num := b, ia_value_bool := c,
                             ia_value_date := d, ia_updated_at := now\<rparr>
                      else r) rows)
         = filter (\<lambda>r. ia_instance_id r = iid \<and> ia_field_id r = fid) rows"
  using assms by (induction rows) auto

lemma rows_update_same:
  "list_all (holds_values v now)
     (filter (\<lambda>r. ia_instance_id r = iid \<and> ia_field_id r = fid)
        (map (\<lambda>r. if ia_instance_id r = iid \<and> ia_field_id r = fid
                   then r\<lparr>ia_value_text := value_text v, ia_value_num := value_num v,
                          ia_value_bool := value_bool v, ia_value_date := value_date v,
                          ia_updated_at := now\<rparr>
                   else r) rows))"
  by (induction rows) (auto simp: holds_values_def)

lemma rows_update_nonempty:
  "list_ex (\<lambda>r. ia_instance_id r = iid \<and> ia_field_id r = fid) rows \<Longrightarrow>
     filter (\<lambda>r. ia_instance_id r = iid \<and> ia_field_id r = fid)
        (map (\<lambda>r. if ia_instance_id r = iid \<and> ia_field_id r = fid
                   then r\<lparr>ia_value_text := a, ia_value_num := b, ia_value_bool := c,
                          ia_value_date := d, ia_updated_at := now\<rparr>
                   else r) rows) \<noteq> []"
  by (induction rows) auto

lemma rows_none:
  "\<not> list_ex (\<lambda>r. ia_instance_id r = iid \<and> ia_field_id r = fid) rows \<Longrightarrow>
     filter (\<lambda>r. ia_instance_id r = iid \<and> ia_field_id r = fid) rows = []"
  by (induction rows) auto

lemma upsert_answer_same:
  "answer_rows (upsert_answer rt now iid fid v st) iid fid \<noteq> []
   \<and> list_all (holds_values (stored_values rt v) now)
        (answer_rows (upsert_answer rt now iid fid v st) iid fid)"
proof (cases "list_ex (\<lambda>r. ia_instance_id r = iid \<and> ia_field_id r = fid) (instance_answers st)")
  case True
  then show ?thesis
    by (simp add: upsert_answer_def Let_def answer_rows_def rows_update_same rows_update_nonempty)
next
  case False
  then show ?thesis
    by (simp add: upsert_answer_def Let_def answer_rows_def rows_none holds_values_def)
qed

lemma upsert_answer_other:
  "fid' \<noteq> fid \<Longrightarrow>
     answer_rows (upsert_answer rt now iid fid' v st) iid fid = answer_rows st iid fid"
  by (simp add: upsert_answer_def Let_def answer_rows_def rows_update_other)

lemma save_loop_other:
  assumes "\<forall>b \<in> set answers. \<forall>fid' dt. fm (ans_field_code b) = Some (fid', dt) \<longrightarrow> fid' \<noteq> fid"
    and "save_loop rt now fm iid st answers = Inr st'"
  shows "answer_rows st' iid fid = answer_rows st iid fid"
  using assms
proof (induction answers arbitrary: st)
  case Nil
  then show ?case by simp
next
  case (Cons a answers)
  show ?case
  proof (cases "fm (ans_field_code a)")
    case None
    with Cons show ?thesis by simp
  next
    case (Some p)
    obtain fid' dt where p: "p = (fid', dt)" by (cases p)
    from Cons.prems(2) Some p obtain v where
      r: "save_loop rt now fm iid (upsert_answer rt now iid fid' v st) answers = Inr st'"
      by (auto split: sum.splits)
    from Cons.prems(1) Some p have ne: "fid' \<noteq> fid" by simp
    from Cons.prems(1) have "\<forall>b \<in> set answers. \<forall>fid' dt. fm (ans_field_code b) = Some (fid', dt) \<longrightarrow> fid' \<noteq> fid"
      by simp
    from Cons.IH [OF this r] upsert_answer_other [OF ne] show ?thesis by simp
  qed
qed

lemma save_loop_persists:
  assumes "save_loop rt now fm iid st (pre @ a # post) = Inr st'"
    and "fm (ans_field_code a) = Some (fid, dt)"
    and "\<forall>b \<in> set post. \<forall>fid' dt'. fm (ans_field_code b) = Some (fid', dt') \<longrightarrow> fid' \<noteq> fid"
  shows "\<exists>v. coerce_value rt dt (ans_value a) = Inr v
            \<and> answer_rows st' iid fid \<noteq> []
            \<and> list_all (holds_values (stored_values rt v) now) (answer_rows st' iid fid)"
proof -
  from assms(1) obtain st1 where
    "save_loop rt now fm iid st1 (a # post) = Inr st'"
    by (auto simp: save_loop_append split: sum.splits)
  with assms(2) obtain v where
    v: "coerce_value rt dt (ans_value a) = Inr v"
    and r: "save_loop rt now fm iid (upsert_answer rt now iid fid v st1) post = Inr st'"
    by (auto split: sum.splits)
  from save_loop_other [OF assms(3) r] upsert_answer_same [of rt now iid fid v st1] v
  show ?thesis by auto
qed

lemma field_map_dom:
  "field_map st step_id code \<noteq> None \<longleftrightarrow>
     (\<exists>f \<in> set (step_fields st). \<exists>dt \<in> set (field_data_types st).
        sf_code f = code \<and> sf_step_id f = step_id \<and> sf_data_type_id f = lk_id dt)"
proof -
  have *: "fold (\<lambda>(f, dt) m. m(sf_code f \<mapsto> (sf_id f, lk_code dt))) rows m0 code \<noteq> None
            \<longleftrightarrow> m0 code \<noteq> None \<or> (\<exists>(f, dt) \<in> set rows. sf_code f = code)"
    for rows :: "(step_fields_row \<times> lookup_row) list" and m0
    by (induction rows arbitrary: m0) (auto split: if_splits)
  show ?thesis
    unfolding field_map_def * by auto
qed

text \<open>
  C9. \<^verbatim>\<open>_save_answers\<close> skips every submitted pair whose field code does not resolve
  to a field of the step. Its outcome, the new state or the exception, is the one
  of the same request without those pairs, so an unknown field code never makes it
  fail, and a request of unknown codes only returns normally and leaves the state
  as it was. The recognised pairs of the same request are persisted: when the
  request succeeds, the last pair submitted for a field has been coerced, and the
  answer rows of the instance for that field exist and hold the coerced values as
  the store keeps them.
\<close>

theorem save_answers_skips_unknown:
  "save_answers rt now st iid step_id answers =
     save_answers rt now st iid step_id
       (filter (\<lambda>a. field_map st step_id (ans_field_code a) \<noteq> None) answers)
   \<and> ((\<forall>a \<in> set answers. field_map st step_id (ans_field_code a) = None)
        \<longrightarrow> save_answers rt now st iid step_id answers = Inr st)
   \<and> (save_answers rt now st iid step_id (pre @ a # post) = Inr st'
        \<and> field_map st step_id (ans_field_code a) = Some (fid, dt)
        \<and> (\<forall>b \<in> set post. \<forall>fid' dt'.
              field_map st step_id (ans_field_code b) = Some (fid', dt') \<longrightarrow> fid' \<noteq> fid)
        \<longrightarrow> (\<exists>v. coerce_value rt dt (ans_value a) = Inr v
              \<and> answer_rows st' iid fid \<noteq> []
              \<and> list_all (holds_values (stored_values rt v) now) (answer_rows st' iid fid)))"
  unfolding save_answers_def
  using save_loop_filter [of rt now "field_map st step_id" iid st answers]
    save_loop_unknown [of answers "field_map st step_id" rt now iid st]
    save_loop_persists [of rt now "field_map st step_id" iid st pre a post st' fid dt]
  by blast

theorem save_answers_skips_unknown_witness:
  "save_answers rt0 2 demo 1 10
      [\<lparr>ans_field_code = ''zzz'', ans_value = PInt 3\<rparr>,
       \<lparr>ans_field_code = ''is_dev'', ans_value = PBool True\<rparr>,
       \<lparr>ans_field_code = ''yyy'', ans_value = PStr ''x''\<rparr>]
     = save_answers rt0 2 demo 1 10 [\<lparr>ans_field_code = ''is_dev'', ans_value = PBool True\<rparr>]
   \<and> save_answers rt0 2 demo 1 10
        [\<lparr>ans_field_code = ''zzz'', ans_value = PInt 3\<rparr>,
         \<lparr>ans_field_code = ''yyy'', ans_value = PStr ''x''\<rparr>] = Inr demo
   \<and> (\<exists>st'. save_answers rt0 2 demo 1 10
          [\<lparr>ans_field_code = ''zzz'', ans_value = PInt 3\<rparr>,
           \<lparr>ans_field_code = ''is_dev'', ans_value = PBool True\<rparr>,
           \<lparr>ans_field_code = ''yyy'', ans_value = PStr ''x''\<rparr>] = Inr st'
        \<and> answer_rows st' 1 101 \<noteq> []
        \<and> list_all (holds_values (no_values\<lparr>value_bool := PInt 1\<rparr>) 2)
             (answer_rows st' 1 101))"
proof -
  let ?u1 = "\<lparr>ans_field_code = ''zzz'', ans_value = PInt 3 :: unit pyval\<rparr>"
  let ?a = "\<lparr>ans_field_code = ''is_dev'', ans_value = PBool True :: unit pyval\<rparr>"
  let ?u2 = "\<lparr>ans_field_code = ''yyy'', ans_value = PStr ''x'' :: unit pyval\<rparr>"
  let ?st' = "upsert_answer rt0 2 1 101 (no_values\<lparr>value_bool := PBool True\<rparr>) demo"
  have fm: "field_map demo 10 ''zzz'' = None" "field_map demo 10 ''yyy'' = None"
    "field_map demo 10 ''is_dev'' = Some (101, ''boolean'')"
    by code_simp+
  have one: "save_answers rt0 2 demo 1 10 [?a] = Inr ?st'"
    by (simp add: save_answers_def fm coerce_value_def)
  have flt: "filter (\<lambda>a. field_map demo 10 (ans_field_code a) \<noteq> None) [?u1, ?a, ?u2] = [?a]"
    by (simp add: fm)
  have c1: "save_answers rt0 2 demo 1 10 [?u1, ?a, ?u2] = save_answers rt0 2 demo 1 10 [?a]"
    using save_answers_skips_unknown [of rt0 2 demo 1 10 "[?u1, ?a, ?u2]", THEN conjunct1] flt
    by simp
  have c2: "save_answers rt0 2 demo 1 10 [?u1, ?u2] = Inr demo"
    using save_answers_skips_unknown
            [of rt0 2 demo 1 10 "[?u1, ?u2]", THEN conjunct2, THEN conjunct1]
    by (simp add: fm)
  have cv: "coerce_value rt0 ''boolean'' (PBool True) = Inr (no_values\<lparr>value_bool := PBool True\<rparr>)"
    by (simp add: coerce_value_def)
  have sv: "stored_values rt0 (no_values\<lparr>value_bool := PBool True\<rparr>)
              = no_values\<lparr>value_bool := PInt 1\<rparr>"
    by (simp add: stored_values_def no_values_def)
  have c3: "answer_rows ?st' 1 101 \<noteq> []
        \<and> list_all (holds_values (no_values\<lparr>value_bool := PInt 1\<rparr>) 2) (answer_rows ?st' 1 101)"
    using save_answers_skips_unknown
            [of rt0 2 demo 1 10 "[?u1, ?a, ?u2]" "[?u1]" ?a "[?u2]" ?st' 101 "''boolean''",
             THEN conjunct2, THEN conjunct2]
          c1 one cv
    by (simp add: fm sv)
  from c1 c2 c3 one show ?thesis by simp
qed

section \<open>Properties of submitting a step\<close>

lemma evaluate_group_complete_step:
  "evaluate_group rt (complete_step now iid cur st) gid ans = evaluate_group rt st gid ans"
proof -
  have "conditions_rows (complete_step now iid cur st) gid = conditions_rows st gid"
    by (simp add: conditions_rows_def complete_step_def)
  moreover have "condition_groups (complete_step now iid cur st) = condition_groups st"
    by (simp add: complete_step_def)
  ultimately show ?thesis
    unfolding evaluate_group_def by (simp only:)
qed

lemma allowed_targets_complete_step:
  "allowed_targets rt (complete_step now iid cur st) ans ts = allowed_targets rt st ans ts"
  by (induction ts) (simp_all add: evaluate_group_complete_step cong: sum.case_cong)

lemma forward_steps_complete_step:
  "get_valid_forward_steps rt (complete_step now iid cur st) i s = get_valid_forward_steps rt st i s"
  by (simp add: get_valid_forward_steps_def allowed_targets_complete_step)
     (simp add: transitions_rows_def get_all_answers_def complete_step_def)

lemma sync_session_state_tables:
  "sync_session_state rt st iid = Inr (entry, st') \<Longrightarrow>
     form_instances st' = form_instances st \<and> instance_steps st' = instance_steps st"
  by (auto simp: sync_session_state_def Let_def split: option.splits sum.splits)

text \<open>
  C4, as the code has it. When \<^verbatim>\<open>submit_step\<close> runs on a current step that is not
  terminal and for which no forward transition is eligible, no new entry event is
  logged (the rows of \<^verbatim>\<open>instance_steps\<close> are those from before, the ones of the
  current step marked completed), but the instance does not keep its current
  step: the \<^verbatim>\<open>else\<close> branch of \<^verbatim>\<open>if next_step_id:\<close> sets its status to
  \<^verbatim>\<open>completed\<close> and its current step to \<^verbatim>\<open>NULL\<close>, as for a terminal step, and the
  response says \<^verbatim>\<open>is_complete\<close>.
\<close>

theorem submit_step_no_forward:
  assumes inst: "find (\<lambda>i. fi_id i = iid) (form_instances st) = Some inst"
    and cur: "fi_current_step_id inst = Some cur" "cur \<noteq> 0"
    and step: "find (\<lambda>s. fs_id s = cur) (form_steps st) = Some step" "\<not> fs_is_terminal step"
    and save: "save_answers rt now st iid cur answers = Inr st1"
    and none: "get_valid_forward_steps rt st1 iid cur = Inr []"
    and status: "find (\<lambda>r. lk_code r = ''completed'') (instance_statuses st) = Some status_row"
  shows "form_instances (snd (submit_step rt now st iid answers)) =
           map (\<lambda>r. if fi_id r = iid
                     then r\<lparr>fi_status_id := lk_id status_row, fi_current_step_id := None,
                            fi_updated_at := now\<rparr>
                     else r) (form_instances st)
       \<and> instance_steps (snd (submit_step rt now st iid answers)) =
           map (\<lambda>r. if is_instance_id r = iid \<and> is_step_id r = cur
                     then r\<lparr>is_status_code := ''completed'', is_left_at := Some now\<rparr>
                     else r) (instance_steps st)
       \<and> (\<forall>resp. fst (submit_step rt now st iid answers) = Inr resp
             \<longrightarrow> is_complete resp \<and> next_step_id resp = None)"
proof -
  let ?st2 = "complete_step now iid cur st1"
  from save have tabs: "st1 = st\<lparr>instance_answers := instance_answers st1\<rparr>"
    unfolding save_answers_def by (rule save_loop_tables)
  have fs: "form_steps ?st2 = form_steps st" and ist: "instance_statuses ?st2 = instance_statuses st"
    and fi: "form_instances ?st2 = form_instances st"
    and iss: "instance_steps st1 = instance_steps st"
    by (subst tabs, simp add: complete_step_def)+
  have nxt: "determine_next_step rt ?st2 iid cur = Inr None"
    by (simp add: determine_next_step_def fs step forward_steps_complete_step none)
  have sid: "get_instance_status_id ?st2 ''completed'' = Inr (lk_id status_row)"
    by (simp add: get_instance_status_id_def ist status)
  let ?st3 = "finish_instance now iid (lk_id status_row) ?st2"
  have sub: "submit_step rt now st iid answers =
        (case sync_session_state rt ?st3 iid of
           Inl e \<Rightarrow> (Inl e, ?st3)
         | Inr (entry, st4) \<Rightarrow>
             (Inr \<lparr>instance_id = iid, next_step_id = None, next_step_code = None,
                   is_complete = True, completed_steps = ss_completed_steps entry,
                   available_steps = ss_available_steps entry\<rparr>, st4))"
    by (simp add: submit_step_def inst cur save nxt sid Let_def)
  have t3: "form_instances ?st3 =
           map (\<lambda>r. if fi_id r = iid
                     then r\<lparr>fi_status_id := lk_id status_row, fi_current_step_id := None,
                            fi_updated_at := now\<rparr>
                     else r) (form_instances st)"
    by (simp add: finish_instance_def fi)
  have s3: "instance_steps ?st3 =
           map (\<lambda>r. if is_instance_id r = iid \<and> is_step_id r = cur
                     then r\<lparr>is_status_code := ''completed'', is_left_at := Some now\<rparr>
                     else r) (instance_steps st)"
    by (simp add: finish_instance_def complete_step_def iss)
  show ?thesis
  proof (cases "sync_session_state rt ?st3 iid")
    case (Inl e)
    then show ?thesis by (simp add: sub t3 s3)
  next
    case (Inr p)
    obtain entry st4 where p: "p = (entry, st4)" by (cases p)
    from sync_session_state_tables [OF Inr [unfolded p]] show ?thesis
      by (simp add: sub Inr p t3 s3)
  qed
qed

theorem submit_step_no_forward_witness:
  "form_instances (snd (submit_step rt0 2 demo_step2 1 [])) =
     [\<lparr>fi_id = 1, fi_form_id = 1, fi_status_id = 4, fi_current_step_id = None,
       fi_updated_at = 2\<rparr>]
   \<and> instance_steps (snd (submit_step rt0 2 demo_step2 1 [])) =
     [\<lparr>is_instance_id = 1, is_step_id = 10, is_status_code = ''completed'',
       is_entered_at = 0, is_left_at = Some 1\<rparr>,
      \<lparr>is_instance_id = 1, is_step_id = 20, is_status_code = ''completed'',
       is_entered_at = 1, is_left_at = Some 2\<rparr>]"
proof -
  have a: "find (\<lambda>i. fi_id i = 1) (form_instances demo_step2)
             = Some \<lparr>fi_id = 1, fi_form_id = 1, fi_status_id = 2, fi_current_step_id = Some 20,
                     fi_updated_at = 1\<rparr>"
    by (simp add: demo_step2_def)
  have b: "find (\<lambda>s. fs_id s = 20) (form_steps demo_step2)
             = Some \<lparr>fs_id = 20, fs_code = ''step_2_dev'', fs_is_terminal = False\<rparr>"
    by (simp add: demo_step2_def demo_def seeded_def)
  have c: "save_answers rt0 2 demo_step2 1 20 [] = Inr demo_step2"
    by (simp add: save_answers_def)
  have d: "get_valid_forward_steps rt0 demo_step2 1 20 = Inr []"
    by code_simp
  have e: "find (\<lambda>r. lk_code r = ''completed'') (instance_statuses demo_step2)
             = Some \<lparr>lk_id = 4, lk_code = ''completed''\<rparr>"
    by (simp add: demo_step2_def demo_def seeded_def)
  have f: "form_instances demo_step2 =
        [\<lparr>fi_id = 1, fi_form_id = 1, fi_status_id = 2, fi_current_step_id = Some 20,
          fi_updated_at = 1\<rparr>]"
    by (simp add: demo_step2_def)
  have g: "instance_steps demo_step2 =
        [\<lparr>is_instance_id = 1, is_step_id = 10, is_status_code = ''completed'',
          is_entered_at = 0, is_left_at = Some 1\<rparr>,
         \<lparr>is_instance_id = 1, is_step_id = 20, is_status_code = ''entered'',
          is_entered_at = 1, is_left_at = None\<rparr>]"
    by (simp add: demo_step2_def)
  show ?thesis
    using submit_step_no_forward [OF a _ _ b _ c d e] by (simp add: f g)
qed

theorem submit_step_no_forward_counterexample:
  "find (\<lambda>s. fs_id s = 20) (form_steps demo_step2)
     = Some \<lparr>fs_id = 20, fs_code = ''step_2_dev'', fs_is_terminal = False\<rparr>
   \<and> get_valid_forward_steps rt0 demo_step2 1 20 = Inr []
   \<and> map fi_current_step_id (form_instances demo_step2) = [Some 20]
   \<and> map fi_current_step_id (form_instances (snd (submit_step rt0 2 demo_step2 1 []))) = [None]
   \<and> map fi_status_id (form_instances (snd (submit_step rt0 2 demo_step2 1 []))) = [4]
   \<and> get_instance_status_id demo_step2 ''completed'' = Inr 4"
  by code_simp

end
